theory Spec2Isabelle
  imports Complex_Main "HOL-Library.Sublist" "HOL-Library.Multiset"
begin


section \<open>Go strings\<close>

text \<open>
  A Go string is a sequence of bytes, modelled as \<^typ>\<open>string\<close>. The functions of the
  \<^verbatim>\<open>strings\<close> package that the program calls are modelled on ASCII text: white space is
  the six ASCII white-space bytes, and lower-casing maps \<^verbatim>\<open>A-Z\<close> to \<^verbatim>\<open>a-z\<close>.
  Bytes from 128 on are kept as they are.
\<close>

definition isSpace :: "char \<Rightarrow> bool" where
  "isSpace c = (c \<in> set [CHR 0x09, CHR 0x0A, CHR 0x0B, CHR 0x0C, CHR 0x0D, CHR '' ''])"

definition TrimLeftSpace :: "string \<Rightarrow> string" where
  "TrimLeftSpace s = dropWhile isSpace s"

definition TrimRightSpace :: "string \<Rightarrow> string" where
  "TrimRightSpace s = rev (dropWhile isSpace (rev s))"

definition TrimSpace :: "string \<Rightarrow> string" where
  "TrimSpace s = TrimRightSpace (TrimLeftSpace s)"

definition HasPrefix :: "string \<Rightarrow> string \<Rightarrow> bool" where
  "HasPrefix s p = (take (length p) s = p)"

definition TrimPrefix :: "string \<Rightarrow> string \<Rightarrow> string" where
  "TrimPrefix s p = (if HasPrefix s p then drop (length p) s else s)"

definition HasSuffix :: "string \<Rightarrow> string \<Rightarrow> bool" where
  "HasSuffix s p = (length p \<le> length s \<and> drop (length s - length p) s = p)"

definition TrimSuffix :: "string \<Rightarrow> string \<Rightarrow> string" where
  "TrimSuffix s p = (if HasSuffix s p then take (length s - length p) s else s)"

text \<open>\<^verbatim>\<open>strings.Contains(s, sub)\<close>: \<^verbatim>\<open>sub\<close> occurs in \<^verbatim>\<open>s\<close> as a contiguous block.\<close>

fun Contains :: "string \<Rightarrow> string \<Rightarrow> bool" where
  "Contains [] sub = (sub = [])"
| "Contains (c # s) sub = (HasPrefix (c # s) sub \<or> Contains s sub)"

definition toLowerChar :: "char \<Rightarrow> char" where
  "toLowerChar c =
     (let n = (of_char c :: nat) in if 65 \<le> n \<and> n \<le> 90 then char_of (n + 32) else c)"

definition ToLower :: "string \<Rightarrow> string" where
  "ToLower s = map toLowerChar s"

section \<open>Extraction of the JSON payload from a model response\<close>

text \<open>
  The loop of \<^verbatim>\<open>extractJSONFromGemini\<close> from the position of the opening bracket on:
  \<open>scanClose opn cls cs n\<close> walks \<open>cs\<close> with the counter \<open>openCount = n\<close> and returns the
  number of bytes up to and including the one that brings the counter back to zero, or
  \<open>None\<close> when the loop runs off the end (\<^verbatim>\<open>end\<close> stays 0).
\<close>

fun scanClose :: "char \<Rightarrow> char \<Rightarrow> string \<Rightarrow> int \<Rightarrow> nat option" where
  "scanClose opn cls [] n = None"
| "scanClose opn cls (x # xs) n =
     (if x = opn then map_option Suc (scanClose opn cls xs (n + 1))
      else if x = cls then
        (if n - 1 = 0 then Some 1 else map_option Suc (scanClose opn cls xs (n - 1)))
      else map_option Suc (scanClose opn cls xs n))"

definition isOpenBracket :: "char \<Rightarrow> bool" where
  "isOpenBracket c = (c = CHR ''{'' \<or> c = CHR ''['')"

definition stripFence :: "string \<Rightarrow> string" where
  "stripFence content =
     (if HasPrefix content ''```json'' then TrimSuffix (TrimPrefix content ''```json'') ''```''
      else if HasPrefix content ''```'' then TrimSuffix (TrimPrefix content ''```'') ''```''
      else content)"

definition extractJSONFromGemini :: "string \<Rightarrow> string" where
  "extractJSONFromGemini content0 =
     (let content = stripFence (TrimSpace content0);
          rest = dropWhile (\<lambda>c. \<not> isOpenBracket c) content
      in case rest of
           [] \<Rightarrow> []
         | b # _ \<Rightarrow>
             (let opn = (if b = CHR ''{'' then CHR ''{'' else CHR ''['');
                  cls = (if b = CHR ''{'' then CHR ''}'' else CHR '']'')
              in case scanClose opn cls rest 0 of
                   None \<Rightarrow> []
                 | Some k \<Rightarrow> TrimSpace (take k rest)))"

text \<open>
  What "the first balanced block, by bracket counting" means, independently of the loop:
  \<open>depth opn cls xs\<close> is the number of opening minus the number of closing brackets in
  \<open>xs\<close>, and a block is balanced when it starts with \<^verbatim>\<open>{\<close> or \<^verbatim>\<open>[\<close>, its depth is zero, and
  the depth of each of its proper non-empty prefixes is positive.
\<close>

definition closingOf :: "char \<Rightarrow> char" where
  "closingOf b = (if b = CHR ''{'' then CHR ''}'' else CHR '']'')"

fun depth :: "char \<Rightarrow> char \<Rightarrow> string \<Rightarrow> int" where
  "depth opn cls [] = 0"
| "depth opn cls (x # xs) =
     (if x = opn then 1 else if x = cls then - 1 else 0) + depth opn cls xs"

definition balancedBlock :: "string \<Rightarrow> bool" where
  "balancedBlock p =
     (case p of [] \<Rightarrow> False
      | b # _ \<Rightarrow> isOpenBracket b \<and> depth b (closingOf b) p = 0 \<and>
          (\<forall>k \<in> {1..<length p}. 0 < depth b (closingOf b) (take k p)))"

section \<open>More of the strings package\<close>

text \<open>
  \<^verbatim>\<open>strings.ReplaceAll(s, old, new)\<close>: the non-overlapping occurrences of \<open>old\<close> are
  replaced from left to right. For an empty \<open>old\<close>, \<open>new\<close> is put before every byte and at
  the end (the program never passes an empty \<open>old\<close>).
\<close>

function ReplaceAll :: "string \<Rightarrow> string \<Rightarrow> string \<Rightarrow> string" where
  "ReplaceAll [] old new = (if old = [] then new else [])"
| "ReplaceAll (c # s) old new =
     (if old = [] then new @ c # ReplaceAll s old new
      else if HasPrefix (c # s) old then new @ ReplaceAll (drop (length old) (c # s)) old new
      else c # ReplaceAll s old new)"
  by pat_completeness auto
termination
  by (relation "measure (\<lambda>(s, old, new). length s)") auto

text \<open>\<^verbatim>\<open>strings.Fields(s)\<close>: the maximal runs of bytes that are not white space.\<close>

function Fields :: "string \<Rightarrow> string list" where
  "Fields s =
     (let s1 = dropWhile isSpace s in
      if s1 = [] then []
      else takeWhile (\<lambda>c. \<not> isSpace c) s1 # Fields (dropWhile (\<lambda>c. \<not> isSpace c) s1))"
  by pat_completeness auto
termination
proof (relation "measure length")
  show "wf (measure length)" by simp
next
  fix s s1 :: string
  assume s1: "s1 = dropWhile isSpace s" and ne: "s1 \<noteq> []"
  have a: "length (dropWhile (\<lambda>c. \<not> isSpace c) s1) < length s1"
  proof (cases s1)
    case Nil
    with ne show ?thesis by simp
  next
    case (Cons c cs)
    then have "\<not> isSpace c" using s1 by (metis hd_dropWhile list.sel(1) ne)
    then have "length (dropWhile (\<lambda>c. \<not> isSpace c) s1) \<le> length cs"
      using Cons by (simp add: length_dropWhile_le)
    then show ?thesis using Cons by simp
  qed
  have "length s1 \<le> length s" unfolding s1 by (rule length_dropWhile_le)
  with a show "(dropWhile (\<lambda>c. \<not> isSpace c) s1, s) \<in> measure length" by simp
qed

declare Fields.simps [simp del]

lemma HasPrefix_length: "HasPrefix s p \<Longrightarrow> length p \<le> length s"
proof -
  assume "HasPrefix s p"
  then have "length (take (length p) s) = length p" by (simp add: HasPrefix_def)
  then show ?thesis by simp
qed

lemma ReplaceAll_hit:
  "old \<noteq> [] \<Longrightarrow> HasPrefix (c # s) old \<Longrightarrow>
   ReplaceAll (c # s) old new = new @ ReplaceAll (drop (length old) (c # s)) old new"
  by (subst ReplaceAll.simps(2)) (simp only: if_True if_False)

lemma ReplaceAll_miss:
  "old \<noteq> [] \<Longrightarrow> \<not> HasPrefix (c # s) old \<Longrightarrow>
   ReplaceAll (c # s) old new = c # ReplaceAll s old new"
  by (subst ReplaceAll.simps(2)) (simp only: if_True if_False)

lemma ReplaceAll_length_le:
  "old \<noteq> [] \<Longrightarrow> length new \<le> length old \<Longrightarrow> length (ReplaceAll s old new) \<le> length s"
proof (induction s old new rule: ReplaceAll.induct)
  case (1 old new)
  then show ?case by simp
next
  case (2 c s old new)
  show ?case
  proof (cases "HasPrefix (c # s) old")
    case True
    have l: "length old \<le> length (c # s)" by (rule HasPrefix_length[OF True])
    have "length (ReplaceAll (drop (length old) (c # s)) old new) \<le> length (drop (length old) (c # s))"
      by (rule 2(2)[OF 2(4) True 2(4) 2(5)])
    then have "length (ReplaceAll (drop (length old) (c # s)) old new) \<le> length (c # s) - length old"
      by (simp only: length_drop)
    then show ?thesis unfolding ReplaceAll_hit[OF 2(4) True] using 2(5) l by simp
  next
    case False
    have "length (ReplaceAll s old new) \<le> length s" by (rule 2(3)[OF 2(4) False 2(4) 2(5)])
    then show ?thesis unfolding ReplaceAll_miss[OF 2(4) False] by simp
  qed
qed

lemma ReplaceAll_length_less:
  "old \<noteq> [] \<Longrightarrow> length new < length old \<Longrightarrow> Contains s old \<Longrightarrow>
   length (ReplaceAll s old new) < length s"
proof (induction s old new rule: ReplaceAll.induct)
  case (1 old new)
  then show ?case by simp
next
  case (2 c s old new)
  show ?case
  proof (cases "HasPrefix (c # s) old")
    case True
    have l: "length old \<le> length (c # s)" by (rule HasPrefix_length[OF True])
    have "length (ReplaceAll (drop (length old) (c # s)) old new) \<le> length (drop (length old) (c # s))"
      using ReplaceAll_length_le[of old new "drop (length old) (c # s)"] 2(4,5) by linarith
    then have "length (ReplaceAll (drop (length old) (c # s)) old new) \<le> length (c # s) - length old"
      by (simp only: length_drop)
    then show ?thesis unfolding ReplaceAll_hit[OF 2(4) True] using 2(5) l by simp
  next
    case False
    then have "Contains s old" using 2(6) by simp
    then have "length (ReplaceAll s old new) < length s" by (rule 2(3)[OF 2(4) False 2(4) 2(5)])
    then show ?thesis unfolding ReplaceAll_miss[OF 2(4) False] by simp
  qed
qed

text \<open>The loop \<^verbatim>\<open>for strings.Contains(normalized, "  ") { normalized = strings.ReplaceAll(normalized, "  ", " ") }\<close>;
  it ends because each round shortens the string.\<close>

function collapseSpaces :: "string \<Rightarrow> string" where
  "collapseSpaces s = (if Contains s ''  '' then collapseSpaces (ReplaceAll s ''  '' '' '') else s)"
  by pat_completeness auto
termination
proof (relation "measure length")
  show "wf (measure length)" by simp
next
  fix s :: string
  assume "Contains s ''  ''"
  then have "length (ReplaceAll s ''  '' '' '') < length s"
    by (intro ReplaceAll_length_less) simp_all
  then show "(ReplaceAll s ''  '' '' '', s) \<in> measure length" by simp
qed

declare collapseSpaces.simps [simp del]

section \<open>JSON values\<close>

text \<open>
  What \<^verbatim>\<open>encoding/json\<close> decodes into an \<^verbatim>\<open>interface{}\<close>: a number is a \<^verbatim>\<open>float64\<close>,
  given here by its exact value, and an object is a \<^verbatim>\<open>map[string]interface{}\<close>, given as
  a list of pairs that is read with \<^const>\<open>map_of\<close>.
\<close>

datatype json =
    JNull
  | JBool bool
  | JNumber real
  | JString string
  | JArray "json list"
  | JObject "(string \<times> json) list"

type_synonym fields = "(string \<times> json) list"

text \<open>The type assertions \<^verbatim>\<open>data[k].(string)\<close>, \<^verbatim>\<open>.(float64)\<close>, \<^verbatim>\<open>.([]interface{})\<close> and
  \<^verbatim>\<open>.(map[string]interface{})\<close>; \<open>None\<close> is \<^verbatim>\<open>ok == false\<close>.\<close>

definition asString :: "fields \<Rightarrow> string \<Rightarrow> string option" where
  "asString data k = (case map_of data k of Some (JString s) \<Rightarrow> Some s | _ \<Rightarrow> None)"

definition asFloat :: "fields \<Rightarrow> string \<Rightarrow> real option" where
  "asFloat data k = (case map_of data k of Some (JNumber x) \<Rightarrow> Some x | _ \<Rightarrow> None)"

definition asArray :: "fields \<Rightarrow> string \<Rightarrow> json list option" where
  "asArray data k = (case map_of data k of Some (JArray xs) \<Rightarrow> Some xs | _ \<Rightarrow> None)"

text \<open>\<^verbatim>\<open>fmt.Sprintf("%d", i)\<close> for a non-negative \<open>i\<close>.\<close>

definition digitChar :: "nat \<Rightarrow> char" where
  "digitChar d = char_of (48 + d)"

function decimal :: "nat \<Rightarrow> string" where
  "decimal n = (if n < 10 then [digitChar n] else decimal (n div 10) @ [digitChar (n mod 10)])"
  by pat_completeness auto
termination
  by (relation "measure id") auto

declare decimal.simps [simp del]

definition itemKey :: "nat \<Rightarrow> string" where
  "itemKey i = ''item_'' @ decimal i"

text \<open>The loop \<^verbatim>\<open>for i, item := range arr { result[fmt.Sprintf("item_%d", i)] = item }\<close>.\<close>

fun wrapArray :: "nat \<Rightarrow> json list \<Rightarrow> fields" where
  "wrapArray i [] = []"
| "wrapArray i (item # arr) = (itemKey i, item) # wrapArray (Suc i) arr"

section \<open>The rate limiter\<close>

text \<open>
  Time is the reading of the monotonic clock in nanoseconds. \<open>lastGeminiRequest\<close> is
  \<open>None\<close> for the zero \<^verbatim>\<open>time.Time\<close> the variable starts with: \<^verbatim>\<open>now.Sub\<close> of the zero
  time saturates at the largest duration, which is not below the delay.
\<close>

definition second :: int where
  "second = 1000000000"

definition geminiRateLimitDelay :: int where
  "geminiRateLimitDelay = 35 * second"

record limiter =
  clock :: int
  lastGeminiRequest :: "int option"

text \<open>
  \<^verbatim>\<open>time.Sleep(d)\<close> returns after at least \<open>d\<close>; \<open>over\<close> is the time that passes beyond
  \<open>d\<close>. A non-positive \<open>d\<close> returns at once.
\<close>

definition sleep :: "int \<Rightarrow> int \<Rightarrow> limiter \<Rightarrow> limiter" where
  "sleep d over s = s\<lparr>clock := clock s + max d 0 + over\<rparr>"

text \<open>
  \<^verbatim>\<open>enforceRateLimit\<close>, whose whole body runs with \<^verbatim>\<open>geminiMutex\<close> held. It returns the
  duration it slept (if it did) and the new state. \<open>over\<close> is the time that passes in the
  body beyond the requested sleep.
\<close>

definition enforceRateLimit :: "int \<Rightarrow> limiter \<Rightarrow> int option \<times> limiter" where
  "enforceRateLimit over s =
     (let now = clock s in
      case lastGeminiRequest s of
        None \<Rightarrow> let s1 = sleep 0 over s in (None, s1\<lparr>lastGeminiRequest := Some (clock s1)\<rparr>)
      | Some l \<Rightarrow>
          let timeSinceLastRequest = now - l in
          if timeSinceLastRequest < geminiRateLimitDelay then
            let sleepDuration = geminiRateLimitDelay - timeSinceLastRequest;
                s1 = sleep sleepDuration over s
            in (Some sleepDuration, s1\<lparr>lastGeminiRequest := Some (clock s1)\<rparr>)
          else
            let s1 = sleep 0 over s in (None, s1\<lparr>lastGeminiRequest := Some (clock s1)\<rparr>))"

text \<open>The update \<^verbatim>\<open>lastGeminiRequest = time.Now()\<close> of the two retry paths, under the mutex.\<close>

definition restamp :: "limiter \<Rightarrow> limiter" where
  "restamp s = s\<lparr>lastGeminiRequest := Some (clock s)\<rparr>"

text \<open>
  All callers of the process share one limiter, and the mutex makes each of its accesses
  atomic: a run of the process is a sequence of these operations, in the order in which the
  mutex was taken, with time passing in between.
\<close>

datatype limiter_op =
    Pass int       \<comment> \<open>time passes outside the mutex\<close>
  | Enforce int    \<comment> \<open>a caller runs \<^verbatim>\<open>enforceRateLimit\<close>\<close>
  | Restamp        \<comment> \<open>a retry path re-stamps after its own sleep\<close>

fun opDuration :: "limiter_op \<Rightarrow> int" where
  "opDuration (Pass d) = d"
| "opDuration (Enforce over) = over"
| "opDuration Restamp = 0"

text \<open>\<open>runOps ops s\<close> returns the start stamps of the accepted calls, in order, and the
  final state.\<close>

fun runOps :: "limiter_op list \<Rightarrow> limiter \<Rightarrow> int list \<times> limiter" where
  "runOps [] s = ([], s)"
| "runOps (Pass d # ops) s = runOps ops (s\<lparr>clock := clock s + d\<rparr>)"
| "runOps (Enforce over # ops) s =
     (let s1 = snd (enforceRateLimit over s);
          (stamps, s2) = runOps ops s1
      in (clock s1 # stamps, s2))"
| "runOps (Restamp # ops) s = runOps ops (restamp s)"

fun spaced :: "int \<Rightarrow> int list \<Rightarrow> bool" where
  "spaced d (x # y # zs) = (d \<le> y - x \<and> spaced d (y # zs))"
| "spaced d _ = True"

section \<open>The Gemini client\<close>

record GeminiResponse =
  Candidates :: "string list list"   \<comment> \<open>the texts of the parts of each candidate\<close>
  ErrorMessage :: string

datatype http_result =
    BuildError string                  \<comment> \<open>\<^verbatim>\<open>http.NewRequestWithContext\<close> failed\<close>
  | DoError string                     \<comment> \<open>\<^verbatim>\<open>client.Do\<close> failed\<close>
  | Response int string string         \<comment> \<open>\<^verbatim>\<open>StatusCode\<close>, \<^verbatim>\<open>Status\<close> and the body\<close>

text \<open>
  The decoders of the standard library, as the program uses them: \<open>retryDelayOf body\<close> is
  the duration of \<^verbatim>\<open>error.details[0].retryInfo.retryDelay\<close> when the body decodes, has
  details, the field is not empty and \<^verbatim>\<open>time.ParseDuration\<close> accepts it;
  \<open>decodeResponse\<close> is \<^verbatim>\<open>dec.Decode(&geminiResp)\<close>; \<open>unmarshal\<close> is \<^verbatim>\<open>json.Unmarshal\<close>
  into an \<^verbatim>\<open>interface{}\<close>.
\<close>

record decoders =
  retryDelayOf :: "string \<Rightarrow> int option"
  decodeResponse :: "string \<Rightarrow> GeminiResponse option"
  unmarshal :: "string \<Rightarrow> json option"

text \<open>One attempt, as the world answers it: what the request returns, and how long the
  limiter, the request and the retry sleep take beyond what was asked.\<close>

record attempt =
  outcome :: http_result
  enforceOver :: int
  requestTime :: int
  sleepOver :: int

datatype gemini_error =
    BuildRequestError string
  | RequestError string
  | HttpError string string
  | DecodeError
  | GeminiError string
  | EmptyResponse
  | NoJSON string
  | UnmarshalError


datatype client_event =
    RateLimitSleep int
  | Request int
  | RetryAfterSleep int
  | BackoffSleep int


text \<open>The part of \<^verbatim>\<open>analyzeDocumentWithRetry\<close> after a 2xx response.\<close>

definition parseBody :: "decoders \<Rightarrow> string \<Rightarrow> gemini_error + fields" where
  "parseBody w body =
     (case decodeResponse w body of
        None \<Rightarrow> Inl DecodeError
      | Some geminiResp \<Rightarrow>
          if ErrorMessage geminiResp \<noteq> [] then Inl (GeminiError (ErrorMessage geminiResp))
          else case Candidates geminiResp of
            [] \<Rightarrow> Inl EmptyResponse
          | [] # _ \<Rightarrow> Inl EmptyResponse
          | (content # _) # _ \<Rightarrow>
              (let jsonStr = extractJSONFromGemini content in
               if jsonStr = [] then Inl (NoJSON content)
               else case unmarshal w jsonStr of
                 Some (JObject result) \<Rightarrow> Inr result
               | Some (JArray arr) \<Rightarrow> Inr (wrapArray 0 arr)
               | _ \<Rightarrow> Inl UnmarshalError))"




fun backoffs :: "client_event list \<Rightarrow> int list" where
  "backoffs [] = []"
| "backoffs (BackoffSleep d # evs) = d # backoffs evs"
| "backoffs (_ # evs) = backoffs evs"

fun requests :: "client_event list \<Rightarrow> nat" where
  "requests [] = 0"
| "requests (Request _ # evs) = Suc (requests evs)"
| "requests (_ # evs) = requests evs"

definition w0 :: decoders where
  "w0 = \<lparr>retryDelayOf = (\<lambda>_. None), decodeResponse = (\<lambda>_. None), unmarshal = (\<lambda>_. None)\<rparr>"



definition clockMonotone :: "limiter_op list \<Rightarrow> bool" where
  "clockMonotone ops = (\<forall>op \<in> set ops. 0 \<le> opDuration op)"

definition stampNotAhead :: "limiter \<Rightarrow> bool" where
  "stampNotAhead s = (case lastGeminiRequest s of None \<Rightarrow> True | Some l \<Rightarrow> l \<le> clock s)"

definition fresh :: limiter where
  "fresh = \<lparr>clock = 0, lastGeminiRequest = None\<rparr>"

definition opsExample :: "limiter_op list" where
  "opsExample = [Enforce 0, Pass (2 * second), Enforce 1, Pass (3 * second), Restamp, Enforce 0, Pass (50 * second), Enforce 0]"

text \<open>A response with leading prose and a fenced array, and decoders that know it.\<close>

definition bracketFree :: "string \<Rightarrow> bool" where
  "bracketFree pre = (\<forall>c \<in> set pre. \<not> isOpenBracket c)"

definition preEx :: string where
  \<open>preEx = ''Here is the data: ```json ''\<close>

definition payloadEx :: string where
  \<open>payloadEx = ''[{"a": 1}, {"b": [2]}]''\<close>

definition postEx :: string where
  \<open>postEx = '' ``` done''\<close>

definition wEx :: decoders where
  "wEx = \<lparr>retryDelayOf = (\<lambda>_. None),
          decodeResponse = (\<lambda>body. if body = ''resp''
             then Some \<lparr>Candidates = [[preEx @ payloadEx @ postEx]], ErrorMessage = []\<rparr> else None),
          unmarshal = (\<lambda>s. if s = payloadEx
             then Some (JArray [JObject [(''a'', JNumber 1)], JObject [(''b'', JArray [JNumber 2])]])
             else None)\<rparr>"

section \<open>The customer check record\<close>

text \<open>
  The types of package \<^verbatim>\<open>models\<close>. The enumerations are Go string types and stay strings;
  a \<^verbatim>\<open>*MoneyVND\<close> and a \<^verbatim>\<open>*time.Time\<close> are options; a \<^verbatim>\<open>[5]MoneyVND\<close> is a list of
  five integers. Two fields are both called \<^verbatim>\<open>Ownership\<close> in the source and one is
  called like its type; they are \<open>Ownership\<close>, \<open>LandOwnership\<close> and \<open>SiteVisitInfo\<close> here,
  and the field \<^verbatim>\<open>Source\<close> of \<^verbatim>\<open>RelationshipBackground\<close> is \<open>RelationshipSource\<close>.
\<close>

type_synonym date = "nat \<times> nat \<times> nat"   \<comment> \<open>year, month, day\<close>

definition TriYes :: string where "TriYes = ''yes''"
definition TriNo :: string where "TriNo = ''no''"
definition TriNA :: string where "TriNA = ''na''"
definition YesNoNA :: string where "YesNoNA = ''''"
definition Yes :: string where "Yes = ''yes''"
definition No :: string where "No = ''no''"
definition ClientTypeCorporateEntity :: string where "ClientTypeCorporateEntity = ''corporate_entity''"
definition ClientTypePrivateIndividual :: string where "ClientTypePrivateIndividual = ''private_individual''"
definition CustomerTypeNA :: string where "CustomerTypeNA = ''na_private_individual''"
definition CustomerTypeManufacturing :: string where "CustomerTypeManufacturing = ''manufacturing_production''"
definition CustomerTypeTrading :: string where "CustomerTypeTrading = ''trading_commercial''"
definition CustomerTypeConstruction :: string where "CustomerTypeConstruction = ''construction_real_estate''"
definition CustomerTypeServices :: string where "CustomerTypeServices = ''services''"
definition CustomerTypeAgriculture :: string where "CustomerTypeAgriculture = ''agriculture_forestry_fishery''"
definition CustomerTypeTechnology :: string where "CustomerTypeTechnology = ''technology_it_software''"
definition CustomerTypeEnergy :: string where "CustomerTypeEnergy = ''energy_utilities''"
definition CustomerTypeFinance :: string where "CustomerTypeFinance = ''finance_insurance_banking''"
definition CustomerTypeHealthcare :: string where "CustomerTypeHealthcare = ''healthcare_pharmaceuticals''"
definition CustomerTypeMedia :: string where "CustomerTypeMedia = ''media_entertainment''"
definition Ownership100 :: string where "Ownership100 = ''100''"
definition OwnershipGT50 :: string where "OwnershipGT50 = ''gt_50''"
definition OwnershipLT50 :: string where "OwnershipLT50 = ''lt_50''"
definition OwnershipNA :: string where "OwnershipNA = ''na''"
definition LandOwner :: string where "LandOwner = ''land_owner''"
definition RentalAgreement :: string where "RentalAgreement = ''rental_agreement''"
definition Unknown :: string where "Unknown = ''unknown''"
definition SignboardMatches :: string where "SignboardMatches = ''available_matches_client_info''"
definition SignboardMismatched :: string where "SignboardMismatched = ''available_does_not_match_client_info''"
definition SignboardNotAvail :: string where "SignboardNotAvail = ''not_available_or_not_checked''"
definition LoanTypeShortTerm :: string where "LoanTypeShortTerm = ''short_term_loan''"
definition LoanTypeMediumTerm :: string where "LoanTypeMediumTerm = ''medium_term_loan''"
definition LoanTypeLongTerm :: string where "LoanTypeLongTerm = ''long_term_loan''"
definition LoanTypeCreditCard :: string where "LoanTypeCreditCard = ''credit_card''"
definition LoanTypeOverdrafts :: string where "LoanTypeOverdrafts = ''overdrafts''"
definition LoanTypeGuarantee :: string where "LoanTypeGuarantee = ''guarantee''"
definition LoanTypeFinancialLeasing :: string where "LoanTypeFinancialLeasing = ''financial_leasing''"
definition LoanTypeFactoring :: string where "LoanTypeFactoring = ''factoring''"
definition LoanTypeConsumerLoan :: string where "LoanTypeConsumerLoan = ''consumer_loan''"
definition LoanTypeOtherCredit :: string where "LoanTypeOtherCredit = ''other_credit_facility''"
definition DebtClassificationGroup1 :: string where "DebtClassificationGroup1 = ''group_1_current_debt''"
definition DebtClassificationGroup2 :: string where "DebtClassificationGroup2 = ''group_2_special_mention_debt''"
definition DebtClassificationGroup3 :: string where "DebtClassificationGroup3 = ''group_3_substandard_debt''"
definition DebtClassificationGroup4 :: string where "DebtClassificationGroup4 = ''group_4_doubtful_debt''"
definition DebtClassificationGroup5 :: string where "DebtClassificationGroup5 = ''group_5_loss_debt''"

record GeneralCorporateInfo =
  ClientName :: string
  ClientType :: string
  TaxCodeMST :: string
  BusinessLicenseGPKD :: string
  BusinessAddress :: string
  RegisteredShareCapital :: "int option"
  CustomerType :: string
  BusinessOperations :: string

record CorporateHistory =
  IncorporationDate :: "date option"
  HistoryDescription :: string

record RelationshipBackground =
  RelationshipSource :: string

record OwnershipInfo =
  OwnersName :: string
  OwnershipCategory :: string
  CompanyDirectorName :: string
  KeyDecisionMaker :: string

record CorporateInfo =
  General :: GeneralCorporateInfo
  History :: CorporateHistory
  Relationship :: RelationshipBackground
  Ownership :: OwnershipInfo

record EVNInformation =
  BillingAddress :: string
  BillingAddressMatchesClient :: string
  BillingAmount :: "int option"
  BilledAmountsMatchExpenses :: string

record LandOwnershipInformation =
  Situation :: string
  LandownerIsSignatory :: string
  LeaseExpirationDate :: "date option"
  OwnedDocsComplete :: string

record LandInfo =
  EVN :: EVNInformation
  LandOwnership :: LandOwnershipInformation

record PLInfo =
  TotalRevenues :: "int list"
  TotalCosts :: "int list"
  TotalEnergyCosts :: "int list"

record BalanceSheetInfo =
  TotalAssets :: "int list"
  TotalDebt :: "int list"

record LoanInfo =
  LoanType :: string
  DebtClassification :: string
  OutstandingAmount :: "int option"
  AnnualInterestCost :: "int option"
  AnnualAmortization :: "int option"
  Maturity :: "date option"
  PaymentHistory :: string

record FinancialInfo =
  FinancialStatementDate :: "date option"
  PL :: PLInfo
  BalanceSheet :: BalanceSheetInfo
  Loans :: "LoanInfo list"

record SiteVisit =
  CompanySignboard :: string

record AdditionalInfo =
  SiteVisitInfo :: SiteVisit

record CustomerCheck =
  CheckCompletedAt :: "int option"
  Corporate :: CorporateInfo
  Land :: LandInfo
  Financial :: FinancialInfo
  Additional :: AdditionalInfo

text \<open>The zero value \<^verbatim>\<open>&models.CustomerCheck{}\<close>.\<close>

definition zeroCheck :: CustomerCheck where
  "zeroCheck =
     \<lparr>CheckCompletedAt = None,
      Corporate = \<lparr>General = \<lparr>ClientName = [], ClientType = [], TaxCodeMST = [],
                      BusinessLicenseGPKD = [], BusinessAddress = [], RegisteredShareCapital = None,
                      CustomerType = [], BusinessOperations = []\<rparr>,
                   History = \<lparr>IncorporationDate = None, HistoryDescription = []\<rparr>,
                   Relationship = \<lparr>RelationshipSource = []\<rparr>,
                   Ownership = \<lparr>OwnersName = [], OwnershipCategory = [], CompanyDirectorName = [],
                      KeyDecisionMaker = []\<rparr>\<rparr>,
      Land = \<lparr>EVN = \<lparr>BillingAddress = [], BillingAddressMatchesClient = [], BillingAmount = None,
                      BilledAmountsMatchExpenses = []\<rparr>,
              LandOwnership = \<lparr>Situation = [], LandownerIsSignatory = [], LeaseExpirationDate = None,
                      OwnedDocsComplete = []\<rparr>\<rparr>,
      Financial = \<lparr>FinancialStatementDate = None,
                   PL = \<lparr>TotalRevenues = [0, 0, 0, 0, 0], TotalCosts = [0, 0, 0, 0, 0],
                          TotalEnergyCosts = [0, 0, 0, 0, 0]\<rparr>,
                   BalanceSheet = \<lparr>TotalAssets = [0, 0, 0, 0, 0], TotalDebt = [0, 0, 0, 0, 0]\<rparr>,
                   Loans = []\<rparr>,
      Additional = \<lparr>SiteVisitInfo = \<lparr>CompanySignboard = []\<rparr>\<rparr>\<rparr>"

section \<open>Document sources\<close>

definition SourceBusinessLicense :: string where "SourceBusinessLicense = ''business_license''"
definition SourceEVNBill :: string where "SourceEVNBill = ''evn_bill''"
definition SourceLandCertificate :: string where "SourceLandCertificate = ''land_certificate''"
definition SourceIDCheck :: string where "SourceIDCheck = ''id_check''"
definition SourceFinancialStatement :: string where "SourceFinancialStatement = ''financial_statement''"
definition SourceSiteVisitPhotos :: string where "SourceSiteVisitPhotos = ''site_visit_photos''"
definition SourceCICReport :: string where "SourceCICReport = ''cic_report''"
definition SourceCICReport2 :: string where "SourceCICReport2 = ''cic_report_2''"
definition SourceUnknown :: string where "SourceUnknown = ''unknown''"

section \<open>Conversions\<close>

text \<open>\<^verbatim>\<open>models.MoneyVND(x)\<close> of a \<^verbatim>\<open>float64\<close> in the range of \<^verbatim>\<open>int64\<close>: the fraction is
  dropped.\<close>

definition MoneyVND :: "real \<Rightarrow> int" where
  "MoneyVND x = (if 0 \<le> x then \<lfloor>x\<rfloor> else \<lceil>x\<rceil>)"

text \<open>
  \<^verbatim>\<open>time.Parse("2006-01-02", s)\<close>: four digits, a dash, two digits of a month from 1 to 12,
  a dash, two digits of a day of that month, and nothing more.
\<close>

definition isDigit :: "char \<Rightarrow> bool" where
  "isDigit c = (48 \<le> (of_char c :: nat) \<and> (of_char c :: nat) \<le> 57)"

definition digitVal :: "char \<Rightarrow> nat" where
  "digitVal c = of_char c - 48"

definition isLeap :: "nat \<Rightarrow> bool" where
  "isLeap y = (y mod 4 = 0 \<and> (y mod 100 \<noteq> 0 \<or> y mod 400 = 0))"

definition daysIn :: "nat \<Rightarrow> nat \<Rightarrow> nat" where
  "daysIn m y =
     (if m = 2 then (if isLeap y then 29 else 28)
      else if m = 4 \<or> m = 6 \<or> m = 9 \<or> m = 11 then 30 else 31)"

definition parseDate :: "string \<Rightarrow> date option" where
  "parseDate s =
     (if length s = 10 \<and> s ! 4 = CHR ''-'' \<and> s ! 7 = CHR ''-'' \<and>
         list_all isDigit [s ! 0, s ! 1, s ! 2, s ! 3, s ! 5, s ! 6, s ! 8, s ! 9]
      then
        (let y = 1000 * digitVal (s ! 0) + 100 * digitVal (s ! 1) + 10 * digitVal (s ! 2) + digitVal (s ! 3);
             m = 10 * digitVal (s ! 5) + digitVal (s ! 6);
             d = 10 * digitVal (s ! 8) + digitVal (s ! 9)
         in if 1 \<le> m \<and> m \<le> 12 \<and> 1 \<le> d \<and> d \<le> daysIn m y then Some (y, m, d) else None)
      else None)"

section \<open>Merging extracted fields into the customer check\<close>

definition updateFromBusinessLicense :: "CorporateInfo \<Rightarrow> fields \<Rightarrow> CorporateInfo" where
  "updateFromBusinessLicense info0 data =
     (let info = (case asString data ''client_name'' of
                    Some clientName \<Rightarrow> info0\<lparr>General := (General info0)\<lparr>ClientName := clientName\<rparr>\<rparr>
                  | None \<Rightarrow> info0);
          info = (case asString data ''client_type'' of
                    Some clientType \<Rightarrow>
                      (let l = ToLower clientType in
                       if l = ''corporate_entity'' then
                         info\<lparr>General := (General info)\<lparr>ClientType := ClientTypeCorporateEntity\<rparr>\<rparr>
                       else if l = ''private_individual'' then
                         info\<lparr>General := (General info)\<lparr>ClientType := ClientTypePrivateIndividual\<rparr>\<rparr>
                       else info)
                  | None \<Rightarrow> info);
          info = (case asString data ''tax_code_mst'' of
                    Some taxCode \<Rightarrow> info\<lparr>General := (General info)\<lparr>TaxCodeMST := taxCode\<rparr>\<rparr>
                  | None \<Rightarrow> info);
          info = (case asString data ''business_license_gpkd'' of
                    Some license \<Rightarrow>
                      (let l = ToLower license in
                       if l = ''yes'' then info\<lparr>General := (General info)\<lparr>BusinessLicenseGPKD := TriYes\<rparr>\<rparr>
                       else if l = ''no'' then info\<lparr>General := (General info)\<lparr>BusinessLicenseGPKD := TriNo\<rparr>\<rparr>
                       else if l = ''na'' \<or> l = ''n/a'' then
                         info\<lparr>General := (General info)\<lparr>BusinessLicenseGPKD := TriNA\<rparr>\<rparr>
                       else info)
                  | None \<Rightarrow> info);
          info = (case asString data ''business_address'' of
                    Some address \<Rightarrow> info\<lparr>General := (General info)\<lparr>BusinessAddress := address\<rparr>\<rparr>
                  | None \<Rightarrow> info);
          info = (case asFloat data ''registered_share_capital'' of
                    Some capital \<Rightarrow>
                      info\<lparr>General := (General info)\<lparr>RegisteredShareCapital := Some (MoneyVND capital)\<rparr>\<rparr>
                  | None \<Rightarrow> info);
          info = (case asString data ''business_operations'' of
                    Some operations \<Rightarrow> info\<lparr>General := (General info)\<lparr>BusinessOperations := operations\<rparr>\<rparr>
                  | None \<Rightarrow> info);
          info = (case asString data ''customer_type'' of
                    Some customerType \<Rightarrow>
                      (if customerType \<in> set [''manufacturing_production'', ''trading_commercial'',
                             ''construction_real_estate'', ''services'', ''agriculture_forestry_fishery'',
                             ''technology_it_software'', ''energy_utilities'', ''finance_insurance_banking'',
                             ''healthcare_pharmaceuticals'', ''media_entertainment'', ''na_private_individual'']
                       then info\<lparr>General := (General info)\<lparr>CustomerType := customerType\<rparr>\<rparr>
                       else info)
                  | None \<Rightarrow> info);
          info = (case asString data ''incorporation_date'' of
                    Some d \<Rightarrow>
                      (case parseDate d of
                         Some t \<Rightarrow> info\<lparr>History := (History info)\<lparr>IncorporationDate := Some t\<rparr>\<rparr>
                       | None \<Rightarrow> info)
                  | None \<Rightarrow> info);
          info = (case asString data ''owners_name'' of
                    Some owner \<Rightarrow> info\<lparr>Ownership := (Ownership info)\<lparr>OwnersName := owner\<rparr>\<rparr>
                  | None \<Rightarrow> info);
          info = (case asString data ''ownership_category'' of
                    Some ownership \<Rightarrow>
                      (if ownership = ''100'' then
                         info\<lparr>Ownership := (Ownership info)\<lparr>OwnershipCategory := Ownership100\<rparr>\<rparr>
                       else if ownership = ''gt_50'' \<or> ownership = ''>50%'' then
                         info\<lparr>Ownership := (Ownership info)\<lparr>OwnershipCategory := OwnershipGT50\<rparr>\<rparr>
                       else if ownership = ''lt_50'' \<or> ownership = ''<50%'' then
                         info\<lparr>Ownership := (Ownership info)\<lparr>OwnershipCategory := OwnershipLT50\<rparr>\<rparr>
                       else if ownership = ''na'' \<or> ownership = ''n/a'' then
                         info\<lparr>Ownership := (Ownership info)\<lparr>OwnershipCategory := OwnershipNA\<rparr>\<rparr>
                       else info)
                  | None \<Rightarrow> info);
          info = (case asString data ''key_decision_maker'' of
                    Some decisionMaker \<Rightarrow>
                      info\<lparr>Ownership := (Ownership info)\<lparr>KeyDecisionMaker := decisionMaker\<rparr>\<rparr>
                  | None \<Rightarrow> info)
      in info)"

definition updateFromEVNBill :: "EVNInformation \<Rightarrow> fields \<Rightarrow> EVNInformation" where
  "updateFromEVNBill info0 data =
     (let info = (case asString data ''billing_address'' of
                    Some address \<Rightarrow> info0\<lparr>BillingAddress := address\<rparr>
                  | None \<Rightarrow> info0);
          info = (case asString data ''billing_address_matches_client'' of
                    Some matches \<Rightarrow>
                      (let l = ToLower (TrimSpace matches) in
                       if l = ''yes'' \<or> l = ''true'' \<or> l = ''1'' then info\<lparr>BillingAddressMatchesClient := Yes\<rparr>
                       else if l = ''no'' \<or> l = ''false'' \<or> l = ''0'' then info\<lparr>BillingAddressMatchesClient := No\<rparr>
                       else info\<lparr>BillingAddressMatchesClient := No\<rparr>)
                  | None \<Rightarrow> info);
          info = (case asFloat data ''billing_amount'' of
                    Some amount \<Rightarrow> info\<lparr>BillingAmount := Some (MoneyVND amount)\<rparr>
                  | None \<Rightarrow> info);
          info = (case asString data ''billed_amounts_match_expenses'' of
                    Some matches \<Rightarrow>
                      (let l = ToLower (TrimSpace matches) in
                       if l \<in> set [''yes'', ''true'', ''1'', ''match'', ''matches''] then
                         info\<lparr>BilledAmountsMatchExpenses := TriYes\<rparr>
                       else if l \<in> set [''no'', ''false'', ''0'', ''does not match'', ''doesn'' @ [CHR 0x27] @ ''t match''] then
                         info\<lparr>BilledAmountsMatchExpenses := TriNo\<rparr>
                       else info\<lparr>BilledAmountsMatchExpenses := TriNo\<rparr>)
                  | None \<Rightarrow> info)
      in info)"

definition updateFromLandCertificate :: "LandOwnershipInformation \<Rightarrow> fields \<Rightarrow> LandOwnershipInformation" where
  "updateFromLandCertificate info0 data =
     (let info = (case asString data ''situation'' of
                    Some situation \<Rightarrow>
                      (let l = ToLower situation in
                       if l = ''land_owner'' then info0\<lparr>Situation := LandOwner\<rparr>
                       else if l = ''rental_agreement'' then info0\<lparr>Situation := RentalAgreement\<rparr>
                       else if l = ''unknown'' then info0\<lparr>Situation := Unknown\<rparr>
                       else info0\<lparr>Situation := Unknown\<rparr>)
                  | None \<Rightarrow> info0\<lparr>Situation := Unknown\<rparr>);
          info = (case asString data ''landowner_is_signatory'' of
                    Some signatory \<Rightarrow>
                      (let l = ToLower (TrimSpace signatory) in
                       if l = ''yes'' \<or> l = ''true'' \<or> l = ''1'' then info\<lparr>LandownerIsSignatory := Yes\<rparr>
                       else if l = ''no'' \<or> l = ''false'' \<or> l = ''0'' then info\<lparr>LandownerIsSignatory := No\<rparr>
                       else info\<lparr>LandownerIsSignatory := YesNoNA\<rparr>)
                  | None \<Rightarrow> info);
          info = (case asString data ''documentation_complete'' of
                    Some completeS \<Rightarrow>
                      (let l = ToLower (TrimSpace completeS) in
                       if l \<in> set [''yes'', ''true'', ''1'', ''complete''] then info\<lparr>OwnedDocsComplete := Yes\<rparr>
                       else if l \<in> set [''no'', ''false'', ''0'', ''incomplete''] then info\<lparr>OwnedDocsComplete := No\<rparr>
                       else info\<lparr>OwnedDocsComplete := YesNoNA\<rparr>)
                  | None \<Rightarrow> info);
          info = (case asString data ''lease_expiration_date'' of
                    Some d \<Rightarrow>
                      (if d \<noteq> ''0000-00-00'' \<and> d \<noteq> [] then
                         (case parseDate d of
                            Some t \<Rightarrow> info\<lparr>LeaseExpirationDate := Some t\<rparr>
                          | None \<Rightarrow> info)
                       else info)
                  | None \<Rightarrow> info)
      in info)"

definition updateFromIDCheck :: "OwnershipInfo \<Rightarrow> fields \<Rightarrow> OwnershipInfo" where
  "updateFromIDCheck info0 data =
     (let info = (case asString data ''company_director_name'' of
                    Some director \<Rightarrow> info0\<lparr>CompanyDirectorName := director\<rparr>
                  | None \<Rightarrow> info0);
          info = (case asString data ''key_decision_maker'' of
                    Some decisionMaker \<Rightarrow> info\<lparr>KeyDecisionMaker := decisionMaker\<rparr>
                  | None \<Rightarrow> info)
      in info)"

definition updateFromSiteVisit :: "SiteVisit \<Rightarrow> fields \<Rightarrow> SiteVisit" where
  "updateFromSiteVisit info data =
     (case asString data ''company_signboard'' of
        Some signboard \<Rightarrow>
          (if signboard = ''available_matches_client_info'' then info\<lparr>CompanySignboard := SignboardMatches\<rparr>
           else if signboard = ''available_does_not_match_client_info'' then
             info\<lparr>CompanySignboard := SignboardMismatched\<rparr>
           else if signboard = ''not_available_or_not_checked'' then
             info\<lparr>CompanySignboard := SignboardNotAvail\<rparr>
           else info)
      | None \<Rightarrow> info)"

text \<open>The loop \<^verbatim>\<open>for i, v := range xs { if amount, ok := v.(float64); ok { arr[i] = ... } }\<close>.\<close>

fun setAmounts :: "nat \<Rightarrow> json list \<Rightarrow> int list \<Rightarrow> int list" where
  "setAmounts i [] arr = arr"
| "setAmounts i (v # vs) arr =
     setAmounts (Suc i) vs (case v of JNumber amount \<Rightarrow> arr[i := MoneyVND amount] | _ \<Rightarrow> arr)"

definition fiveAmounts :: "fields \<Rightarrow> string \<Rightarrow> int list \<Rightarrow> int list" where
  "fiveAmounts data k arr =
     (case asArray data k of
        Some xs \<Rightarrow> if length xs = 5 then setAmounts 0 xs arr else arr
      | None \<Rightarrow> arr)"

definition updateFromFinancialStatement :: "FinancialInfo \<Rightarrow> fields \<Rightarrow> FinancialInfo" where
  "updateFromFinancialStatement info0 data =
     (let info = (case asString data ''financial_statement_date'' of
                    Some d \<Rightarrow>
                      (case parseDate d of
                         Some t \<Rightarrow> info0\<lparr>FinancialStatementDate := Some t\<rparr>
                       | None \<Rightarrow> info0)
                  | None \<Rightarrow> info0);
          info = info\<lparr>PL := (PL info)\<lparr>TotalRevenues := fiveAmounts data ''total_revenues'' (TotalRevenues (PL info))\<rparr>\<rparr>;
          info = info\<lparr>PL := (PL info)\<lparr>TotalCosts := fiveAmounts data ''total_costs'' (TotalCosts (PL info))\<rparr>\<rparr>;
          info = info\<lparr>PL := (PL info)\<lparr>TotalEnergyCosts :=
                                     fiveAmounts data ''total_energy_costs'' (TotalEnergyCosts (PL info))\<rparr>\<rparr>;
          info = info\<lparr>BalanceSheet := (BalanceSheet info)\<lparr>TotalAssets :=
                                     fiveAmounts data ''total_assets'' (TotalAssets (BalanceSheet info))\<rparr>\<rparr>;
          info = info\<lparr>BalanceSheet := (BalanceSheet info)\<lparr>TotalDebt :=
                                     fiveAmounts data ''total_debt'' (TotalDebt (BalanceSheet info))\<rparr>\<rparr>
      in info)"

text \<open>The body of the loop of \<^verbatim>\<open>updateFromCICReport\<close> for one element that is an object.\<close>

definition positiveAmount :: "fields \<Rightarrow> string \<Rightarrow> int option" where
  "positiveAmount loanMap k =
     (case asFloat loanMap k of
        Some amount \<Rightarrow> if 0 < amount then Some (MoneyVND amount) else Some 0
      | None \<Rightarrow> Some 0)"

definition loanOf :: "fields \<Rightarrow> LoanInfo" where
  "loanOf loanMap =
     \<lparr>LoanType =
        (case asString loanMap ''loan_type'' of
           Some loanType \<Rightarrow>
             (let l = ToLower loanType in
              if l \<in> set [''short_term_loan'', ''medium_term_loan'', ''long_term_loan'', ''credit_card'',
                    ''overdrafts'', ''guarantee'', ''financial_leasing'', ''factoring'', ''consumer_loan'',
                    ''other_credit_facility'']
              then l else LoanTypeOtherCredit)
         | None \<Rightarrow> LoanTypeOtherCredit),
      DebtClassification =
        (case asString loanMap ''debt_classification'' of
           Some debtClass \<Rightarrow>
             (let l = ToLower debtClass in
              if l \<in> set [''group_1_current_debt'', ''group_2_special_mention_debt'',
                    ''group_3_substandard_debt'', ''group_4_doubtful_debt'', ''group_5_loss_debt'']
              then l else DebtClassificationGroup1)
         | None \<Rightarrow> DebtClassificationGroup1),
      OutstandingAmount = positiveAmount loanMap ''outstanding_amount'',
      AnnualInterestCost = positiveAmount loanMap ''annual_interest_cost'',
      AnnualAmortization = positiveAmount loanMap ''annual_amortization'',
      Maturity =
        (case asString loanMap ''maturity'' of
           Some maturity \<Rightarrow>
             (if maturity \<noteq> ''0000-00-00'' \<and> maturity \<noteq> [] then parseDate maturity else None)
         | None \<Rightarrow> None),
      PaymentHistory =
        (case asString loanMap ''payment_history'' of
           Some description \<Rightarrow> description
         | None \<Rightarrow> ''No payment history found'')\<rparr>"

fun appendLoans :: "json list \<Rightarrow> LoanInfo list \<Rightarrow> LoanInfo list" where
  "appendLoans [] loans = loans"
| "appendLoans (JObject loanMap # rest) loans = appendLoans rest (loans @ [loanOf loanMap])"
| "appendLoans (_ # rest) loans = appendLoans rest loans"

definition updateFromCICReport :: "LoanInfo list \<Rightarrow> fields \<Rightarrow> LoanInfo list" where
  "updateFromCICReport loans data =
     (case asArray data ''loans'' of
        Some loansData \<Rightarrow> appendLoans loansData loans
      | None \<Rightarrow> loans)"

text \<open>\<^verbatim>\<open>UpdateCustomerCheck\<close>: a switch over seven sources, with no default case.\<close>

definition UpdateCustomerCheck :: "CustomerCheck \<Rightarrow> fields \<Rightarrow> string \<Rightarrow> CustomerCheck" where
  "UpdateCustomerCheck check extractedData source =
     (if source = SourceBusinessLicense then
        check\<lparr>Corporate := updateFromBusinessLicense (Corporate check) extractedData\<rparr>
      else if source = SourceEVNBill then
        check\<lparr>Land := (Land check)\<lparr>EVN := updateFromEVNBill (EVN (Land check)) extractedData\<rparr>\<rparr>
      else if source = SourceLandCertificate then
        check\<lparr>Land := (Land check)\<lparr>LandOwnership :=
                   updateFromLandCertificate (LandOwnership (Land check)) extractedData\<rparr>\<rparr>
      else if source = SourceIDCheck then
        check\<lparr>Corporate := (Corporate check)\<lparr>Ownership :=
                   updateFromIDCheck (Ownership (Corporate check)) extractedData\<rparr>\<rparr>
      else if source = SourceSiteVisitPhotos then
        check\<lparr>Additional := (Additional check)\<lparr>SiteVisitInfo :=
                   updateFromSiteVisit (SiteVisitInfo (Additional check)) extractedData\<rparr>\<rparr>
      else if source = SourceFinancialStatement then
        check\<lparr>Financial := updateFromFinancialStatement (Financial check) extractedData\<rparr>
      else if source = SourceCICReport then
        check\<lparr>Financial := (Financial check)\<lparr>Loans :=
                   updateFromCICReport (Loans (Financial check)) extractedData\<rparr>\<rparr>
      else check)"

definition mappedSources :: "string list" where
  "mappedSources = [SourceBusinessLicense, SourceEVNBill, SourceLandCertificate, SourceIDCheck,
     SourceSiteVisitPhotos, SourceFinancialStatement, SourceCICReport]"

section \<open>Address comparison\<close>

text \<open>
  The table of \<^verbatim>\<open>normalizeAddress\<close>, in the order of the source text. The program keeps it
  in a Go map and ranges over it, and the order of a range over a map is chosen by the
  runtime at each call: \<open>normalizeAddress\<close> takes the order of that call as its first
  argument, a rearrangement of the table.
\<close>

definition replacements :: "(string \<times> string) list" where
  "replacements =
     [(''ho chi minh city'', ''hcmc''),
      (''ho chi minh'', ''hcmc''),
      (''tp. ho chi minh'', ''hcmc''),
      (''tp ho chi minh'', ''hcmc''),
      (''thanh pho ho chi minh'', ''hcmc''),
      (''quan'', ''q''),
      (''phuong'', ''p''),
      (''to'', ''t''),
      (''ap'', ''a'')]"


fun applyReplacements :: "(string \<times> string) list \<Rightarrow> string \<Rightarrow> string" where
  "applyReplacements [] normalized = normalized"
| "applyReplacements ((full, abbrev) # order) normalized =
     applyReplacements order (ReplaceAll normalized full abbrev)"

definition normalizeAddress :: "(string \<times> string) list \<Rightarrow> string \<Rightarrow> string" where
  "normalizeAddress order address =
     (let normalized = applyReplacements order address;
          normalized = ReplaceAll normalized '','' [];
          normalized = ReplaceAll normalized ''.'' [];
          normalized = ReplaceAll normalized ''-'' [];
          normalized = ReplaceAll normalized ''_'' [];
          normalized = collapseSpaces normalized
      in TrimSpace normalized)"

text \<open>The inner loop over \<^verbatim>\<open>words2\<close>, which stops at the first equal word, and the outer
  loop over \<^verbatim>\<open>words1\<close>, which counts.\<close>

fun matchesWord :: "string \<Rightarrow> string list \<Rightarrow> bool" where
  "matchesWord w1 [] = False"
| "matchesWord w1 (w2 # words2) = (if w1 = w2 \<and> 2 < length w1 then True else matchesWord w1 words2)"

fun countMatches :: "string list \<Rightarrow> string list \<Rightarrow> nat" where
  "countMatches [] words2 = 0"
| "countMatches (w1 # words1) words2 =
     (if matchesWord w1 words2 then 1 else 0) + countMatches words1 words2"

text \<open>
  \<^verbatim>\<open>addressesMatch\<close>. The last test of the source is
  \<^verbatim>\<open>float64(matches)/float64(maxWords) > 0.5\<close>; both counts are lengths of lists, far below
  \<open>2\<^sup>5\<^sup>3\<close>, so the quotient of the two floats is above one half exactly when
  \<open>maxWords < 2 * matches\<close>. The two orders are those of the two calls of
  \<^verbatim>\<open>normalizeAddress\<close>.
\<close>

definition addressesMatch ::
  "(string \<times> string) list \<Rightarrow> (string \<times> string) list \<Rightarrow> string \<Rightarrow> string \<Rightarrow> bool"
where
  "addressesMatch order1 order2 address1 address2 =
     (let addr1 = ToLower (TrimSpace address1);
          addr2 = ToLower (TrimSpace address2)
      in if addr1 = addr2 then True
         else
           (let addr1 = normalizeAddress order1 addr1;
                addr2 = normalizeAddress order2 addr2
            in if addr1 = addr2 then True
               else if Contains addr1 addr2 \<or> Contains addr2 addr1 then True
               else
                 (let words1 = Fields addr1;
                      words2 = Fields addr2
                  in if 0 < length words1 \<and> 0 < length words2 then
                       (let matches = countMatches words1 words2;
                            maxWords = (if length words1 < length words2 then length words2
                                        else length words1)
                        in if maxWords < 2 * matches then True else False)
                     else False)))"




record gemini_world =
  apiKey :: string
  wire :: decoders
  answers :: "attempt list"










definition noKey :: gemini_world where
  "noKey = \<lparr>apiKey = [], wire = w0, answers = []\<rparr>"


section \<open>File types\<close>






section \<open>The outside world of one task\<close>

text \<open>
  What the file system, the external programs and the remote services answer. A call that
  returns \<^verbatim>\<open>(string, error)\<close> is a sum: \<open>Inl\<close> holds the message of the error, \<open>Inr\<close> the
  string. \<open>Vision\<close> is \<^verbatim>\<open>ocr.ExtractTextFromImageVision\<close> for the image at a path,
  \<open>ConvertImage\<close> is \<^verbatim>\<open>convertImageToStandardFormat\<close>, \<open>Tesseract\<close> is
  \<^verbatim>\<open>ocr.ExtractTextFromImageTesseract\<close>, \<open>PdfToText\<close> is \<^verbatim>\<open>runPdfToText\<close>, and
  \<open>PdfToPpm path dpi\<close> is the run of \<^verbatim>\<open>pdftoppm\<close> at that resolution followed by the glob
  for the page images, sorted.
\<close>

record download =
  dlLocalPath :: string
  dlSourceURL :: string
  dlFilename :: string
  dlMediaType :: string
  dlErr :: "string option"

record world =
  DownloadToTemp :: "string \<Rightarrow> download"
  StatSize :: "string \<Rightarrow> int option"
  Vision :: "string \<Rightarrow> string + string"
  ConvertImage :: "string \<Rightarrow> string + string"
  Tesseract :: "string \<Rightarrow> string + string"
  ReadFile :: "string \<Rightarrow> string + string"
  PdfToText :: "string \<Rightarrow> string + string"
  VisionKey :: string
  MkdirTemp :: "string option"
  PdfToPpm :: "string \<Rightarrow> int \<Rightarrow> string + string list"
  Gemini :: gemini_world

section \<open>Text extraction from a PDF\<close>

text \<open>The loop over the page images: a page whose OCR fails is skipped, a page whose
  trimmed text is empty adds nothing, and the others are joined by a blank line.\<close>

fun joinPages :: "world \<Rightarrow> string \<Rightarrow> string list \<Rightarrow> string" where
  "joinPages w b [] = b"
| "joinPages w b (img # images) =
     (case Vision w img of
        Inl err \<Rightarrow> joinPages w b images
      | Inr text \<Rightarrow>
          (let s = TrimSpace text in
           if s \<noteq> [] then joinPages w ((if 0 < length b then b @ [CHR 0x0A, CHR 0x0A] else b) @ s) images
           else joinPages w b images))"

definition ExtractTextFromPDFVision :: "world \<Rightarrow> string \<Rightarrow> int \<Rightarrow> string + string" where
  "ExtractTextFromPDFVision w pdfPath dpi0 =
     (if TrimSpace (VisionKey w) = [] then
        Inl ''GOOGLE_VISION_API_KEY is not set; set it in your environment or .env''
      else case MkdirTemp w of
        Some err \<Rightarrow> Inl (''ocr fallback: mkdir temp: '' @ err)
      | None \<Rightarrow>
          (let dpi = (if dpi0 \<le> 0 then 300 else dpi0) in
           case PdfToPpm w pdfPath dpi of
             Inl err \<Rightarrow> Inl err
           | Inr images \<Rightarrow>
               if length images = 0 then Inl ''ocr fallback: no images produced from PDF''
               else Inr (joinPages w [] images)))"

definition ExtractTextFromPDF :: "world \<Rightarrow> string \<Rightarrow> int \<Rightarrow> string + string" where
  "ExtractTextFromPDF w pdfPath dpi0 =
     (case PdfToText w pdfPath of
        Inr txt \<Rightarrow>
          if 10 < length (TrimSpace txt) then Inr txt
          else ExtractTextFromPDFVision w pdfPath (if dpi0 \<le> 0 then 300 else dpi0)
      | Inl err \<Rightarrow> ExtractTextFromPDFVision w pdfPath (if dpi0 \<le> 0 then 300 else dpi0))"

text \<open>The threshold as the comment in the source and the specification word it: more than
  ten characters that are not white space.\<close>

definition nonWhitespace :: "string \<Rightarrow> nat" where
  "nonWhitespace txt = length (filter (\<lambda>c. \<not> isSpace c) txt)"

section \<open>Text extraction from an image, with the recovery chain\<close>





section \<open>Processing one file\<close>

text \<open>\<^verbatim>\<open>types.FileResult\<close> without its two time stamps, and the \<^verbatim>\<open>Processor\<close>. A channel
  is given by its capacity and by the number of values it holds.\<close>

record FileResult =
  SourceURL :: string
  LocalPath :: string
  FileName :: string
  FileTypeName :: string     \<comment> \<open>the field \<^verbatim>\<open>FileType\<close>\<close>
  ExtractedText :: string
  Error :: string
  FileSize :: int
  DocumentSource :: string

record chan =
  capacity :: nat
  buffered :: nat

record Processor =
  MaxConcurrency :: int
  SkipAnalysis :: bool
  Lang :: string
  DPI :: int
  Source :: string
  ProgressChan :: "chan option"

definition NewProcessor :: "int \<Rightarrow> bool \<Rightarrow> string \<Rightarrow> int \<Rightarrow> string \<Rightarrow> Processor" where
  "NewProcessor maxConcurrency skipAnalysis lang dpi source =
     \<lparr>MaxConcurrency = (if maxConcurrency \<le> 0 then 3 else maxConcurrency),
      SkipAnalysis = skipAnalysis,
      Lang = lang,
      DPI = dpi,
      Source = source,
      ProgressChan = Some \<lparr>capacity = 100, buffered = 0\<rparr>\<rparr>"




section \<open>The batch scheduler\<close>

text \<open>
  \<^verbatim>\<open>ProcessFilesWithSources\<close> starts one goroutine per input and waits for all of them.
  A goroutine goes through the points where it can block, in this order: the send to the
  semaphore, the send of the "processing" update to \<^verbatim>\<open>ProgressChan\<close>, the work itself with
  the send of its result (the result channel has room for every result, so this send never
  blocks), and the send of the "completed" or "failed" update, after which the deferred
  calls release the semaphore and the wait group.
\<close>

datatype pc = WaitSem | SendProcessing | Process | SendCompletion | Finished

record sched =
  pcs :: "pc list"                  \<comment> \<open>where each goroutine stands\<close>
  held :: nat                       \<comment> \<open>values in the semaphore channel\<close>
  progress :: nat                   \<comment> \<open>values in \<^verbatim>\<open>ProgressChan\<close>\<close>
  resultsChan :: "FileResult list"  \<comment> \<open>values sent to the result channel, in order\<close>

text \<open>
  A run is a sequence of actions: goroutine \<open>i\<close> is given the processor, or a reader
  outside the function takes one update out of \<^verbatim>\<open>ProgressChan\<close>. A goroutine that is
  blocked stays where it is. A send to a buffered channel goes through when the channel is
  not full; a nil \<^verbatim>\<open>ProgressChan\<close> is not sent to.
\<close>

datatype action = Run nat | Drain

definition sendProgress :: "Processor \<Rightarrow> sched \<Rightarrow> sched option" where
  "sendProgress p s =
     (case ProgressChan p of
        None \<Rightarrow> Some s
      | Some c \<Rightarrow> if progress s < capacity c then Some (s\<lparr>progress := progress s + 1\<rparr>) else None)"

definition taskStep :: "Processor \<Rightarrow> (nat \<Rightarrow> FileResult) \<Rightarrow> nat \<Rightarrow> sched \<Rightarrow> sched" where
  "taskStep p work i s =
     (if length (pcs s) \<le> i then s
      else case pcs s ! i of
        WaitSem \<Rightarrow>
          if int (held s) < MaxConcurrency p
          then s\<lparr>pcs := (pcs s)[i := SendProcessing], held := held s + 1\<rparr>
          else s
      | SendProcessing \<Rightarrow>
          (case sendProgress p s of
             Some s1 \<Rightarrow> s1\<lparr>pcs := (pcs s)[i := Process]\<rparr>
           | None \<Rightarrow> s)
      | Process \<Rightarrow> s\<lparr>pcs := (pcs s)[i := SendCompletion], resultsChan := resultsChan s @ [work i]\<rparr>
      | SendCompletion \<Rightarrow>
          (case sendProgress p s of
             Some s1 \<Rightarrow> s1\<lparr>pcs := (pcs s)[i := Finished], held := held s - 1\<rparr>
           | None \<Rightarrow> s)
      | Finished \<Rightarrow> s)"

fun exec :: "Processor \<Rightarrow> (nat \<Rightarrow> FileResult) \<Rightarrow> action \<Rightarrow> sched \<Rightarrow> sched" where
  "exec p work (Run i) s = taskStep p work i s"
| "exec p work Drain s = (if 0 < progress s then s\<lparr>progress := progress s - 1\<rparr> else s)"

fun runSchedule :: "Processor \<Rightarrow> (nat \<Rightarrow> FileResult) \<Rightarrow> action list \<Rightarrow> sched \<Rightarrow> sched" where
  "runSchedule p work [] s = s"
| "runSchedule p work (a # rest) s = runSchedule p work rest (exec p work a s)"

definition initialSched :: "Processor \<Rightarrow> nat \<Rightarrow> sched" where
  "initialSched p k =
     \<lparr>pcs = replicate k WaitSem, held = 0,
      progress = (case ProgressChan p of None \<Rightarrow> 0 | Some c \<Rightarrow> buffered c),
      resultsChan = []\<rparr>"

definition allFinished :: "sched \<Rightarrow> bool" where
  "allFinished s = list_all (\<lambda>x. x = Finished) (pcs s)"

record BatchResult =
  TotalFiles :: nat
  ProcessedFiles :: nat
  FailedFiles :: nat
  SkippedFiles :: nat
  Results :: "FileResult list"

text \<open>The loop that computes the statistics; the triple is processed, failed, skipped.\<close>

fun countResults :: "FileResult list \<Rightarrow> nat \<times> nat \<times> nat \<Rightarrow> nat \<times> nat \<times> nat" where
  "countResults [] acc = acc"
| "countResults (r # rest) (processedFiles, failedFiles, skippedFiles) =
     (if Error r \<noteq> [] then countResults rest (processedFiles, failedFiles + 1, skippedFiles)
      else if ExtractedText r = [] then countResults rest (processedFiles, failedFiles, skippedFiles + 1)
      else countResults rest (processedFiles + 1, failedFiles, skippedFiles))"

definition fileSourceOf :: "Processor \<Rightarrow> (string \<rightharpoonup> string) option \<Rightarrow> string \<Rightarrow> string" where
  "fileSourceOf p fileSources inputURL =
     (case fileSources of
        None \<Rightarrow> Source p
      | Some m \<Rightarrow> (case m inputURL of Some specificSource \<Rightarrow> specificSource | None \<Rightarrow> Source p))"

text \<open>
  What a call of \<^verbatim>\<open>ProcessFilesWithSources\<close> comes to after a run: it has returned its
  batch result (every goroutine is through, so the channels are closed and the loop over
  the results has ended), or it is still waiting, or it has panicked (making a channel of
  negative capacity panics). \<open>worker inputURL fileSource\<close> is the result of
  \<^verbatim>\<open>p.processOneFileWithSource\<close> for that input, taken as given: every task returns.
\<close>

datatype 'a outcome = Returned 'a | Blocked | Panicked

definition ProcessFilesWithSources ::
  "Processor \<Rightarrow> (string \<Rightarrow> string \<Rightarrow> FileResult) \<Rightarrow> string list \<Rightarrow> (string \<rightharpoonup> string) option \<Rightarrow>
   action list \<Rightarrow> BatchResult outcome"
where
  "ProcessFilesWithSources p worker inputs fileSources schedule =
     (if MaxConcurrency p < 0 then Panicked
      else
        (let work = (\<lambda>i. worker (inputs ! i) (fileSourceOf p fileSources (inputs ! i)));
             s = runSchedule p work schedule (initialSched p (length inputs))
         in if allFinished s then
              (let results = resultsChan s;
                   (processedFiles, failedFiles, skippedFiles) = countResults results (0, 0, 0)
               in Returned \<lparr>TotalFiles = length inputs, ProcessedFiles = processedFiles,
                             FailedFiles = failedFiles, SkippedFiles = skippedFiles,
                             Results = results\<rparr>)
            else Blocked))"

definition noReader :: "action list \<Rightarrow> bool" where
  "noReader schedule = list_all (\<lambda>a. a \<noteq> Drain) schedule"






definition corruptWorld :: world where
  "corruptWorld =
     \<lparr>DownloadToTemp = (\<lambda>input. \<lparr>dlLocalPath = input, dlSourceURL = input, dlFilename = ''photo.jpg'',
                                    dlMediaType = ''image/jpeg'', dlErr = None\<rparr>),
      StatSize = (\<lambda>path. Some 2048),
      Vision = (\<lambda>path. if path = ''/tmp/photo.jpg'' then Inl ''vision error: Bad image data.''
                        else Inl ''vision http error: 400 Bad Request''),
      ConvertImage = (\<lambda>path. Inr ''/tmp/converted_photo.jpg.png''),
      Tesseract = (\<lambda>path. Inl ''tesseract error: exit status 1, stderr: ''),
      ReadFile = (\<lambda>path. Inl ''no such file''),
      PdfToText = (\<lambda>path. Inl ''pdftotext error''),
      VisionKey = ''key'',
      MkdirTemp = None,
      PdfToPpm = (\<lambda>path dpi. Inl ''pdftoppm error''),
      Gemini = noKey\<rparr>"


definition sparseText :: string where
  "sparseText = ''1          2''"

definition sparseWorld :: world where
  "sparseWorld = corruptWorld\<lparr>PdfToText := (\<lambda>path. Inr sparseText)\<rparr>"

text \<open>
  Counters for the proofs about the scheduler: the number of progress updates a goroutine
  has sent when it stands at a given point, whether it has sent its result, the tasks that
  have sent their result, and the two invariants of a run.
\<close>

fun sends :: "pc \<Rightarrow> nat" where
  "sends WaitSem = 0"
| "sends SendProcessing = 0"
| "sends Process = 1"
| "sends SendCompletion = 1"
| "sends Finished = 2"

fun sent :: "pc \<Rightarrow> bool" where
  "sent SendCompletion = True"
| "sent Finished = True"
| "sent _ = False"

definition sentIdx :: "pc list \<Rightarrow> nat list" where
  "sentIdx xs = filter (\<lambda>i. sent (xs ! i)) [0..<length xs]"

definition resultInv :: "(nat \<Rightarrow> FileResult) \<Rightarrow> sched \<Rightarrow> bool" where
  "resultInv work s = (mset (resultsChan s) = mset (map work (sentIdx (pcs s))))"

definition progressInv :: "chan \<Rightarrow> sched \<Rightarrow> bool" where
  "progressInv c s = (progress s = buffered c + sum_list (map sends (pcs s)) \<and> progress s \<le> capacity c)"

text \<open>
  A batch as the command line tool starts it: the processor made by \<^verbatim>\<open>NewProcessor\<close>, a
  worker that succeeds on every input, \<open>k\<close> inputs, and two runs that let the goroutines
  work one after the other, without and with a reader of \<^verbatim>\<open>ProgressChan\<close>.
\<close>

definition okWorker :: "string \<Rightarrow> string \<Rightarrow> FileResult" where
  "okWorker inputURL fileSource =
     \<lparr>SourceURL = inputURL, LocalPath = inputURL, FileName = inputURL, FileTypeName = ''text'',
      ExtractedText = ''some text'', Error = [], FileSize = 9, DocumentSource = fileSource\<rparr>"

definition inputsN :: "nat \<Rightarrow> string list" where
  "inputsN k = map (\<lambda>i. ''file'' @ decimal i @ ''.txt'') [0..<k]"

definition oneByOne :: "nat \<Rightarrow> action list" where
  "oneByOne k = concat (map (\<lambda>i. replicate 4 (Run i)) [0..<k])"

definition oneByOneRead :: "nat \<Rightarrow> action list" where
  "oneByOneRead k = concat (map (\<lambda>i. replicate 4 (Run i) @ [Drain, Drain]) [0..<k])"

definition cliProcessor :: Processor where
  "cliProcessor = NewProcessor 3 True ''eng'' 300 SourceUnknown"

definition isReturnedWith :: "nat \<Rightarrow> BatchResult outcome \<Rightarrow> bool" where
  "isReturnedWith k out =
     (case out of Returned br \<Rightarrow> length (Results br) = k \<and> ProcessedFiles br = k \<and> TotalFiles br = k
      | _ \<Rightarrow> False)"

definition expectedBatch :: "nat \<Rightarrow> BatchResult" where
  "expectedBatch k =
     \<lparr>TotalFiles = k, ProcessedFiles = k, FailedFiles = 0, SkippedFiles = 0,
      Results = map (\<lambda>u. okWorker u SourceUnknown) (inputsN k)\<rparr>"
section \<open>Properties of the JSON extraction\<close>

lemma scanClose_block:
  assumes "opn \<noteq> cls" "p \<noteq> []" "0 \<le> n" "0 < n \<or> hd p = opn"
    and "n + depth opn cls p = 0"
    and "\<forall>k \<in> {1..<length p}. 0 < n + depth opn cls (take k p)"
  shows "scanClose opn cls (p @ post) n = Some (length p)"
  using assms
proof (induction p arbitrary: n)
  case Nil
  then show ?case by simp
next
  case (Cons x xs)
  show ?case
  proof (cases "xs = []")
    case True
    with Cons.prems show ?thesis by (auto split: if_splits)
  next
    case False
    define n' where "n' = n + (if x = opn then 1 else if x = cls then - 1 else 0)"
    have one: "1 \<in> {1..<length (x # xs)}" using False by (cases xs) auto
    from Cons.prems(6) one have "0 < n + depth opn cls (take 1 (x # xs))" by blast
    then have pos: "0 < n'" unfolding n'_def by (simp split: if_splits)
    have pre: "\<forall>k \<in> {1..<length xs}. 0 < n' + depth opn cls (take k xs)"
    proof
      fix k assume k: "k \<in> {1..<length xs}"
      then have "Suc k \<in> {1..<length (x # xs)}" by auto
      with Cons.prems(6) have "0 < n + depth opn cls (take (Suc k) (x # xs))" by blast
      then show "0 < n' + depth opn cls (take k xs)" unfolding n'_def by (simp split: if_splits)
    qed
    have tot: "n' + depth opn cls xs = 0" using Cons.prems(5) unfolding n'_def by (simp split: if_splits)
    have IH: "scanClose opn cls (xs @ post) n' = Some (length xs)"
      using Cons.IH[of n'] Cons.prems(1) False pos pre tot by simp
    show ?thesis using IH pos Cons.prems(1) unfolding n'_def by (auto split: if_splits)
  qed
qed


lemma depth_append: "depth opn cls (xs @ ys) = depth opn cls xs + depth opn cls ys"
  by (induction xs) auto

lemma balancedBlock_last:
  assumes "balancedBlock p"
  shows "p \<noteq> [] \<and> isOpenBracket (hd p) \<and> last p = closingOf (hd p) \<and> 2 \<le> length p"
proof -
  from assms obtain b xs where p: "p = b # xs" and ob: "isOpenBracket b"
    and d0: "depth b (closingOf b) p = 0"
    and pre: "\<forall>k \<in> {1..<length p}. 0 < depth b (closingOf b) (take k p)"
    by (auto simp: balancedBlock_def split: list.splits)
  have ne: "b \<noteq> closingOf b" using ob by (auto simp: isOpenBracket_def closingOf_def)
  have xs: "xs \<noteq> []" using d0 p by auto
  then have len: "2 \<le> length p" using p by (cases xs) auto
  have bl: "p = butlast p @ [last p]" using p by simp
  have "length p - 1 \<in> {1..<length p}" using len by auto
  with pre have "0 < depth b (closingOf b) (take (length p - 1) p)" by blast
  then have "0 < depth b (closingOf b) (butlast p)" by (simp add: butlast_conv_take)
  moreover have "depth b (closingOf b) (butlast p) + depth b (closingOf b) [last p] = 0"
    using d0 bl depth_append[of b "closingOf b" "butlast p" "[last p]"] by simp
  ultimately have "last p = closingOf b" by (auto split: if_splits)
  then show ?thesis using p ob len by simp
qed

lemma dropWhile_stop: "\<not> P c \<Longrightarrow> dropWhile P (a @ c # b) = dropWhile P a @ c # b"
  by (induction a) auto

lemma TrimLeftSpace_stop: "\<not> isSpace c \<Longrightarrow> TrimLeftSpace (a @ c # b) = TrimLeftSpace a @ c # b"
  by (simp add: TrimLeftSpace_def dropWhile_stop)

lemma TrimRightSpace_stop: "\<not> isSpace c \<Longrightarrow> TrimRightSpace (a @ c # b) = a @ c # TrimRightSpace b"
  using dropWhile_stop[of isSpace c "rev b" "rev a"] by (simp add: TrimRightSpace_def)

lemma TrimSpace_middle:
  assumes "p \<noteq> []" "\<not> isSpace (hd p)" "\<not> isSpace (last p)"
  shows "TrimSpace (pre @ p @ post) = TrimLeftSpace pre @ p @ TrimRightSpace post"
proof -
  obtain b xs where p: "p = b # xs" using assms(1) by (cases p) auto
  have l: "TrimLeftSpace (pre @ p @ post) = TrimLeftSpace pre @ p @ post"
    using TrimLeftSpace_stop[of b pre "xs @ post"] assms(2) p by simp
  have "p = butlast p @ [last p]" using assms(1) by simp
  then obtain ys where q: "p = ys @ [last p]" ..
  have r: "TrimRightSpace (q @ p @ post) = q @ p @ TrimRightSpace post" for q
    using TrimRightSpace_stop[of "last p" "q @ butlast p" post] assms(1,3)
    by (metis append.assoc append_Cons append_Nil append_butlast_last_id)
  show ?thesis unfolding TrimSpace_def l r ..
qed


lemma HasPrefix_stop:
  assumes "c \<notin> set f"
  shows "HasPrefix (a @ c # r) f = HasPrefix a f"
proof (cases "length f \<le> length a")
  case True
  then show ?thesis by (simp add: HasPrefix_def)
next
  case False
  then have "c \<in> set (take (length f) (a @ c # r))" by (cases "length f - length a") auto
  then have "take (length f) (a @ c # r) \<noteq> f" using assms by metis
  moreover have "length (take (length f) a) < length f" using False by simp
  then have "take (length f) a \<noteq> f" by auto
  ultimately show ?thesis by (simp add: HasPrefix_def)
qed

lemma TrimPrefix_stop:
  assumes "c \<notin> set f"
  shows "TrimPrefix (a @ c # r) f = TrimPrefix a f @ c # r"
proof (cases "HasPrefix a f")
  case True
  then have "length (take (length f) a) = length f" by (simp add: HasPrefix_def)
  then have "length f \<le> length a" by simp
  then show ?thesis using True assms by (simp add: TrimPrefix_def HasPrefix_stop)
next
  case False
  then show ?thesis using assms by (simp add: TrimPrefix_def HasPrefix_stop)
qed

lemma HasSuffix_rev: "HasSuffix s f = HasPrefix (rev s) (rev f)"
proof -
  have "take (length f) (rev s) = rev (drop (length s - length f) s)"
    by (cases "length f \<le> length s") (simp_all add: rev_drop)
  then have "HasPrefix (rev s) (rev f) = (drop (length s - length f) s = f)"
    by (simp add: HasPrefix_def)
  moreover have "length f \<le> length s" if "drop (length s - length f) s = f"
  proof -
    have "length (drop (length s - length f) s) = length f" using that by simp
    then show ?thesis by simp
  qed
  ultimately show ?thesis by (auto simp: HasSuffix_def)
qed

lemma TrimSuffix_stop:
  assumes "c \<notin> set f"
  shows "TrimSuffix (a @ c # r) f = a @ c # TrimSuffix r f"
proof -
  have hs: "HasSuffix (a @ c # r) f = HasSuffix r f"
    using HasPrefix_stop[of c "rev f" "rev r" "rev a"] assms by (simp add: HasSuffix_rev)
  show ?thesis
  proof (cases "HasSuffix r f")
    case True
    then have "length f \<le> length r" by (simp add: HasSuffix_def)
    then have "Suc (length r) - length f = Suc (length r - length f)" by simp
    then show ?thesis using True hs by (simp add: TrimSuffix_def)
  next
    case False
    then show ?thesis using hs by (simp add: TrimSuffix_def)
  qed
qed

lemma stripFence_middle:
  assumes "isOpenBracket b" "l \<noteq> CHR ''`''"
  shows "\<exists>a' r'. stripFence (a @ b # m @ l # r) = a' @ b # m @ l # r' \<and> set a' \<subseteq> set a"
proof -
  have b1: "b \<notin> set ''```json''" and b2: "b \<notin> set ''```''"
    using assms(1) by (auto simp: isOpenBracket_def)
  have l2: "l \<notin> set ''```''" using assms(2) by simp
  have ts: "TrimSuffix (q @ b # m @ l # r) ''```'' = q @ b # m @ l # TrimSuffix r ''```''" for q
    using TrimSuffix_stop[OF l2, of "q @ b # m" r] by simp
  have sub: "set (TrimPrefix a f) \<subseteq> set a" for f
    by (auto simp: TrimPrefix_def dest: in_set_dropD)
  show ?thesis
    unfolding stripFence_def HasPrefix_stop[OF b1] HasPrefix_stop[OF b2]
      TrimPrefix_stop[OF b1] TrimPrefix_stop[OF b2] ts
    using sub by auto
qed


lemma TrimSpace_block:
  assumes "p \<noteq> []" "\<not> isSpace (hd p)" "\<not> isSpace (last p)"
  shows "TrimSpace p = p"
  using TrimSpace_middle[OF assms, of "[]" "[]"]
  by (simp add: TrimLeftSpace_def TrimRightSpace_def)

theorem extractJSON_recovers:
  assumes bal: "balancedBlock p" and pre: "\<forall>c \<in> set pre. \<not> isOpenBracket c"
  shows "extractJSONFromGemini (pre @ p @ post) = p"
proof -
  from balancedBlock_last[OF bal] have ne: "p \<noteq> []" and ob: "isOpenBracket (hd p)"
    and lp: "last p = closingOf (hd p)" and len: "2 \<le> length p" by auto
  define b where "b = hd p"
  define l where "l = last p"
  obtain m where p: "p = b # m @ [l]"
  proof -
    obtain x xs where "p = x # xs" using ne by (cases p) auto
    moreover then have "xs \<noteq> []" using len by auto
    ultimately have "p = b # butlast xs @ [l]" by (simp add: b_def l_def)
    then show ?thesis using that by blast
  qed
  have nsb: "\<not> isSpace b" using ob by (auto simp: b_def isOpenBracket_def isSpace_def)
  have lcl: "l = closingOf b" using lp by (simp add: b_def l_def)
  have nsl: "\<not> isSpace l" and ntick: "l \<noteq> CHR ''`''"
    using lcl by (auto simp: closingOf_def isSpace_def)
  have obb: "isOpenBracket b" using ob by (simp add: b_def)
  have nsb': "\<not> isSpace (hd p)" and nsl': "\<not> isSpace (last p)"
    using nsb nsl by (simp_all add: b_def l_def)
  have "TrimSpace (pre @ p @ post) = TrimLeftSpace pre @ p @ TrimRightSpace post"
    by (rule TrimSpace_middle[OF ne nsb' nsl'])
  also have "\<dots> = TrimLeftSpace pre @ b # m @ l # TrimRightSpace post"
    by (subst p) simp
  finally have t: "TrimSpace (pre @ p @ post) = TrimLeftSpace pre @ b # m @ l # TrimRightSpace post" .
  obtain a' r' where sf: "stripFence (TrimSpace (pre @ p @ post)) = a' @ b # m @ l # r'"
    and sub: "set a' \<subseteq> set (TrimLeftSpace pre)"
    using stripFence_middle[OF obb ntick] unfolding t by blast
  have "set (TrimLeftSpace pre) \<subseteq> set pre"
    by (auto simp: TrimLeftSpace_def dest: set_dropWhileD)
  with sub pre have a': "\<forall>c \<in> set a'. \<not> isOpenBracket c" by blast
  have hdrest: "p @ r' = b # (m @ l # r')" by (subst p) simp
  have rest: "dropWhile (\<lambda>c. \<not> isOpenBracket c) (a' @ b # m @ l # r') = p @ r'"
    unfolding hdrest using a' obb by (simp add: dropWhile_append2)
  have cls: "(if b = CHR ''{'' then CHR ''{'' else CHR ''['') = b"
    "(if b = CHR ''{'' then CHR ''}'' else CHR '']'') = closingOf b"
    using obb by (auto simp: isOpenBracket_def closingOf_def)
  have neq: "b \<noteq> closingOf b" using obb by (auto simp: isOpenBracket_def closingOf_def)
  from bal have d0: "0 + depth b (closingOf b) p = 0"
    and dp: "\<forall>k \<in> {1..<length p}. 0 < 0 + depth b (closingOf b) (take k p)"
    by (auto simp: balancedBlock_def b_def split: list.splits)
  have sc: "scanClose b (closingOf b) (p @ r') 0 = Some (length p)"
    using scanClose_block[OF neq ne _ _ d0 dp] by (simp add: b_def)
  have tp: "TrimSpace p = p" by (rule TrimSpace_block[OF ne nsb' nsl'])
  show ?thesis
    unfolding extractJSONFromGemini_def Let_def sf rest
    unfolding hdrest list.case cls
    unfolding hdrest[symmetric] sc option.case
    by (simp add: tp)
qed

lemma digitChar_code: "d < 10 \<Longrightarrow> of_char (digitChar d) = 48 + d"
  unfolding digitChar_def of_char_of by simp

lemma digitChar_inj: "d < 10 \<Longrightarrow> e < 10 \<Longrightarrow> digitChar d = digitChar e \<Longrightarrow> d = e"
proof -
  assume a: "d < 10" "e < 10" "digitChar d = digitChar e"
  have "48 + d = (of_char (digitChar d) :: nat)" using a(1) by (simp only: digitChar_code)
  also have "\<dots> = of_char (digitChar e)" by (simp only: a(3))
  also have "\<dots> = 48 + e" using a(2) by (simp only: digitChar_code)
  finally show "d = e" by simp
qed

lemma decimal_nonempty: "decimal n \<noteq> []"
  by (subst decimal.simps) simp

lemma decimal_inj: "decimal m = decimal n \<Longrightarrow> m = n"
proof (induction m arbitrary: n rule: decimal.induct)
  case (1 m)
  show ?case
  proof (cases "m < 10")
    case True
    show ?thesis
    proof (cases "n < 10")
      case T2: True
      with True 1(2) show ?thesis
        by (subst (asm) decimal.simps, subst (asm) (2) decimal.simps) (simp add: digitChar_inj)
    next
      case False
      with True 1(2) show ?thesis
        using decimal_nonempty[of "n div 10"]
        by (subst (asm) decimal.simps, subst (asm) (2) decimal.simps) simp
    qed
  next
    case False
    show ?thesis
    proof (cases "n < 10")
      case True
      with False 1(2) show ?thesis
        using decimal_nonempty[of "m div 10"]
        by (subst (asm) decimal.simps, subst (asm) (2) decimal.simps) simp
    next
      case F2: False
      from False F2 1(2) have "decimal (m div 10) = decimal (n div 10) \<and> digitChar (m mod 10) = digitChar (n mod 10)"
        by (subst (asm) decimal.simps, subst (asm) (2) decimal.simps) simp
      then have "m div 10 = n div 10" "m mod 10 = n mod 10"
        using 1(1)[OF False] digitChar_inj[of "m mod 10" "n mod 10"] by auto
      then show ?thesis by (metis div_mult_mod_eq)
    qed
  qed
qed

lemma itemKey_inj: "itemKey i = itemKey j \<Longrightarrow> i = j"
  by (simp add: itemKey_def decimal_inj)

lemma wrapArray_lookup:
  "i < length arr \<Longrightarrow> map_of (wrapArray k arr) (itemKey (k + i)) = Some (arr ! i)"
proof (induction arr arbitrary: k i)
  case Nil
  then show ?case by simp
next
  case (Cons a arr)
  show ?case
  proof (cases i)
    case 0
    then show ?thesis by simp
  next
    case (Suc j)
    then have "itemKey (k + i) \<noteq> itemKey k" using itemKey_inj[of "k + i" k] by auto
    moreover have "map_of (wrapArray (Suc k) arr) (itemKey (Suc k + j)) = Some (arr ! j)"
      using Cons.IH[of j "Suc k"] Cons.prems Suc by simp
    ultimately show ?thesis using Suc by simp
  qed
qed

lemma wrapArray_keys: "map fst (wrapArray k arr) = map itemKey [k..<k + length arr]"
proof (induction arr arbitrary: k)
  case Nil
  then show ?case by simp
next
  case (Cons a arr)
  have "[k..<Suc (k + length arr)] = k # [Suc k..<Suc (k + length arr)]"
    by (rule upt_conv_Cons) simp
  then show ?case using Cons.IH[of "Suc k"] by simp
qed

text \<open>
  Claim C6, as amended. For every response text made of a prose part without \<^verbatim>\<open>{\<close> and
  \<^verbatim>\<open>[\<close>, then a payload that is a balanced block by bracket counting, then anything: the
  scanner returns exactly the payload; this covers a \<^verbatim>\<open>```json\<close> fence, leading prose and
  an array payload. When the payload decodes as an object the client returns that object,
  and when it decodes as an array the client returns the object whose keys are
  \<^verbatim>\<open>item_0\<close>, \<^verbatim>\<open>item_1\<close>, ... in order, each holding the element of that position.
\<close>

theorem json_payload_recovered:
  assumes "balancedBlock p" and "bracketFree pre"
  shows "extractJSONFromGemini (pre @ p @ post) = p \<and>
    (decodeResponse w body = Some \<lparr>Candidates = ((pre @ p @ post) # parts) # cands, ErrorMessage = []\<rparr> \<longrightarrow>
       (\<forall>kv. unmarshal w p = Some (JObject kv) \<longrightarrow> parseBody w body = Inr kv) \<and>
       (\<forall>arr. unmarshal w p = Some (JArray arr) \<longrightarrow>
          parseBody w body = Inr (wrapArray 0 arr) \<and>
          map fst (wrapArray 0 arr) = map itemKey [0..<length arr] \<and>
          (\<forall>i < length arr. map_of (wrapArray 0 arr) (itemKey i) = Some (arr ! i))))"
proof -
  have ex: "extractJSONFromGemini (pre @ p @ post) = p"
    using extractJSON_recovers[OF assms(1), of pre post] assms(2) by (simp add: bracketFree_def)
  have ne: "p \<noteq> []" using balancedBlock_last[OF assms(1)] by simp
  have keys: "map fst (wrapArray 0 arr) = map itemKey [0..<length arr]" for arr
    using wrapArray_keys[of 0 arr] by simp
  have look: "\<forall>i < length arr. map_of (wrapArray 0 arr) (itemKey i) = Some (arr ! i)" for arr
    using wrapArray_lookup[of _ arr 0] by simp
  show ?thesis
    using ex ne keys look by (simp add: parseBody_def)
qed

theorem json_payload_recovered_witness:
  "balancedBlock payloadEx \<and> bracketFree preEx \<and>
   extractJSONFromGemini (preEx @ payloadEx @ postEx) = payloadEx \<and>
   parseBody wEx ''resp'' = Inr [(''item_0'', JObject [(''a'', JNumber 1)]),
                                 (''item_1'', JObject [(''b'', JArray [JNumber 2])])]"
proof -
  have b: "balancedBlock payloadEx" unfolding payloadEx_def by code_simp
  have p: "bracketFree preEx" unfolding preEx_def by code_simp
  have d: "decodeResponse wEx ''resp'' =
      Some \<lparr>Candidates = ((preEx @ payloadEx @ postEx) # []) # [], ErrorMessage = []\<rparr>"
    by (simp add: wEx_def)
  have u: "unmarshal wEx payloadEx =
      Some (JArray [JObject [(''a'', JNumber 1)], JObject [(''b'', JArray [JNumber 2])]])"
    by (simp add: wEx_def)
  have k: "wrapArray 0 [JObject [(''a'', JNumber 1)], JObject [(''b'', JArray [JNumber 2])]]
      = [(''item_0'', JObject [(''a'', JNumber 1)]), (''item_1'', JObject [(''b'', JArray [JNumber 2])])]"
    by code_simp
  show ?thesis
    using b p json_payload_recovered[OF b p, of postEx wEx "''resp''" "[]" "[]"] d u k by simp
qed

text \<open>
  The claim as first stated fails when the leading prose itself holds a bracket: the
  scanner stops at the first bracket of the prose and returns the block found there.
\<close>

theorem json_prose_counterexample:
  \<open>balancedBlock ''{"a": 1}'' \<and>
   extractJSONFromGemini ''Result [draft]: {"a": 1}'' = ''[draft]''\<close>
  by code_simp

section \<open>Properties of the client and of the rate limiter\<close>



lemma backoffs_append [simp]: "backoffs (xs @ ys) = backoffs xs @ backoffs ys"
  by (induction xs rule: backoffs.induct) auto

lemma requests_append [simp]: "requests (xs @ ys) = requests xs + requests ys"
  by (induction xs rule: requests.induct) auto





lemma spaced_Cons:
  "spaced d (x # ys) = ((case ys of [] \<Rightarrow> True | y # _ \<Rightarrow> d \<le> y - x) \<and> spaced d ys)"
  by (cases ys) auto

lemma enforce_stamp:
  assumes "0 \<le> over" "stampNotAhead s"
  shows "lastGeminiRequest (snd (enforceRateLimit over s)) = Some (clock (snd (enforceRateLimit over s)))"
    and "clock s \<le> clock (snd (enforceRateLimit over s))"
    and "lastGeminiRequest s = Some l \<Longrightarrow> l + geminiRateLimitDelay \<le> clock (snd (enforceRateLimit over s))"
  using assms
  by (auto simp: enforceRateLimit_def sleep_def stampNotAhead_def Let_def split: option.splits)

lemma runOps_bound:
  assumes "\<forall>op \<in> set ops. 0 \<le> opDuration op" "stampNotAhead s"
  shows "spaced geminiRateLimitDelay (fst (runOps ops s)) \<and>
         (\<forall>l x. lastGeminiRequest s = Some l \<longrightarrow> x \<in> set (fst (runOps ops s)) \<longrightarrow> l + geminiRateLimitDelay \<le> x)"
  using assms
proof (induction ops s rule: runOps.induct)
  case (1 s)
  then show ?case by simp
next
  case (2 d ops s)
  then have "stampNotAhead (s\<lparr>clock := clock s + d\<rparr>)"
    by (auto simp: stampNotAhead_def split: option.splits)
  with 2 show ?case by simp
next
  case (3 over ops s)
  define s1 where "s1 = snd (enforceRateLimit over s)"
  have ov: "0 \<le> over" using 3(2) by simp
  have l1: "lastGeminiRequest s1 = Some (clock s1)"
    unfolding s1_def by (rule enforce_stamp(1)[OF ov 3(3)])
  then have inv: "stampNotAhead s1" by (simp add: stampNotAhead_def)
  obtain stamps s2 where r: "runOps ops s1 = (stamps, s2)" by (cases "runOps ops s1") auto
  have IH: "spaced geminiRateLimitDelay stamps \<and>
      (\<forall>x \<in> set stamps. clock s1 + geminiRateLimitDelay \<le> x)"
    using 3(1)[OF s1_def _ inv] 3(2) l1 r by simp
  have "spaced geminiRateLimitDelay (clock s1 # stamps)"
    using IH by (cases stamps) auto
  moreover have "\<forall>l x. lastGeminiRequest s = Some l \<longrightarrow> x \<in> set (clock s1 # stamps)
      \<longrightarrow> l + geminiRateLimitDelay \<le> x"
  proof (intro allI impI)
    fix l x assume l: "lastGeminiRequest s = Some l" and x: "x \<in> set (clock s1 # stamps)"
    have a: "l + geminiRateLimitDelay \<le> clock s1"
      unfolding s1_def by (rule enforce_stamp(3)[OF ov 3(3) l])
    have "0 \<le> geminiRateLimitDelay" by (simp add: geminiRateLimitDelay_def second_def)
    then show "l + geminiRateLimitDelay \<le> x" using a x IH by auto
  qed
  ultimately show ?case using r by (simp add: s1_def Let_def)
next
  case (4 ops s)
  have inv: "stampNotAhead (restamp s)" by (simp add: stampNotAhead_def restamp_def)
  have "\<forall>l. lastGeminiRequest s = Some l \<longrightarrow> l \<le> clock s"
    using 4(3) by (simp add: stampNotAhead_def split: option.splits)
  then show ?case using 4(1)[OF _ inv] 4(2) by (fastforce simp: restamp_def)
qed

text \<open>
  Claim C4. In every run of the process, whatever callers take the mutex in whatever
  order, the start stamps of two consecutive accepted calls are at least the minimum
  spacing of 35 seconds apart. The clock does not run backwards (no operation takes a
  negative time) and the stamp the run starts with is not ahead of the clock.
\<close>

theorem rate_limit_spacing:
  assumes "clockMonotone ops" and "stampNotAhead s"
  shows "spaced geminiRateLimitDelay (fst (runOps ops s))"
  using runOps_bound[of ops s] assms by (simp add: clockMonotone_def)

theorem rate_limit_spacing_witness:
  "clockMonotone opsExample \<and> stampNotAhead fresh \<and>
   fst (runOps opsExample fresh) = [0, 35 * second + 1, 73 * second + 1, 123 * second + 1] \<and>
   spaced geminiRateLimitDelay (fst (runOps opsExample fresh))"
proof -
  have a: "clockMonotone opsExample"
    by (simp add: clockMonotone_def opsExample_def second_def)
  have b: "stampNotAhead fresh" by (simp add: stampNotAhead_def fresh_def)
  have c: "fst (runOps opsExample fresh) = [0, 35 * second + 1, 73 * second + 1, 123 * second + 1]"
    by (simp add: opsExample_def fresh_def enforceRateLimit_def sleep_def restamp_def
        geminiRateLimitDelay_def second_def Let_def)
  show ?thesis using a b c rate_limit_spacing[OF a b] by simp
qed

section \<open>Properties of the address comparison\<close>









text \<open>The order of the range over the table can change the answer too.\<close>

lemma addressesMatch_order_dependent:
  "addressesMatch replacements replacements ''ho chi minh city'' ''xhcmc'' \<noteq>
   addressesMatch (rev replacements) replacements ''ho chi minh city'' ''xhcmc''"
  by code_simp















text \<open>An address of punctuation only normalises to the empty string, which every string
  contains.\<close>

lemma disjoint_but_match_example:
  "addressesMatch replacements replacements ''123 Main Street'' ''-''"
  by code_simp

section \<open>Properties of the merge\<close>

text \<open>
  Claim C9. For a source that is none of the seven mapped kinds, \<open>UpdateCustomerCheck\<close>
  returns the record it was given, whatever the extracted data.
\<close>

theorem UpdateCustomerCheck_unmapped:
  assumes "source \<notin> set mappedSources"
  shows "UpdateCustomerCheck check extractedData source = check"
  using assms by (simp add: UpdateCustomerCheck_def mappedSources_def)

theorem UpdateCustomerCheck_unmapped_witness:
  "SourceUnknown \<notin> set mappedSources \<and> SourceCICReport2 \<notin> set mappedSources \<and>
   UpdateCustomerCheck zeroCheck [(''client_name'', JString ''ACME'')] SourceUnknown = zeroCheck \<and>
   UpdateCustomerCheck zeroCheck [(''loans'', JArray [JObject []])] SourceCICReport2 = zeroCheck"
proof -
  have a: "SourceUnknown \<notin> set mappedSources" by code_simp
  have b: "SourceCICReport2 \<notin> set mappedSources" by code_simp
  show ?thesis
    using a b UpdateCustomerCheck_unmapped[OF a, of zeroCheck "[(''client_name'', JString ''ACME'')]"]
      UpdateCustomerCheck_unmapped[OF b, of zeroCheck "[(''loans'', JArray [JObject []])]"]
    by simp
qed

text \<open>A mapped source does change the record.\<close>

lemma UpdateCustomerCheck_mapped_example:
  "UpdateCustomerCheck zeroCheck [(''client_name'', JString ''ACME'')] SourceBusinessLicense \<noteq> zeroCheck \<and>
   UpdateCustomerCheck zeroCheck [(''loans'', JArray [JObject []])] SourceCICReport \<noteq> zeroCheck"
  by code_simp

section \<open>Properties of the text extraction\<close>






text \<open>What \<^verbatim>\<open>ExtractTextFromPDF\<close> does: the embedded text is returned when its trimmed
  length in bytes is above ten; otherwise the pages are rendered at the given resolution,
  300 when it is not positive, and their texts joined.\<close>

lemma ExtractTextFromPDF_embedded:
  "PdfToText w pdfPath = Inr txt \<Longrightarrow> 10 < length (TrimSpace txt) \<Longrightarrow> ExtractTextFromPDF w pdfPath dpi = Inr txt"
  by (simp add: ExtractTextFromPDF_def)

lemma ExtractTextFromPDF_fallback:
  "(case PdfToText w pdfPath of Inl err \<Rightarrow> True | Inr txt \<Rightarrow> length (TrimSpace txt) \<le> 10) \<Longrightarrow>
   ExtractTextFromPDF w pdfPath dpi = ExtractTextFromPDFVision w pdfPath (if dpi \<le> 0 then 300 else dpi)"
  by (auto simp: ExtractTextFromPDF_def split: sum.splits)

lemma ExtractTextFromPDFVision_pages:
  "TrimSpace (VisionKey w) \<noteq> [] \<Longrightarrow> MkdirTemp w = None \<Longrightarrow>
   PdfToPpm w pdfPath (if dpi \<le> 0 then 300 else dpi) = Inr images \<Longrightarrow> images \<noteq> [] \<Longrightarrow>
   ExtractTextFromPDFVision w pdfPath dpi = Inr (joinPages w [] images)"
  by (simp add: ExtractTextFromPDFVision_def Let_def)

text \<open>
  Claim C5 at an input where the code departs from it: an embedded text of two characters
  that are not white space, twelve bytes long with the spaces between them, is returned
  without OCR.
\<close>

theorem pdf_threshold_counts_inner_spaces:
  "ExtractTextFromPDF sparseWorld ''scan.pdf'' 300 = Inr sparseText \<and>
   length sparseText = 12 \<and> nonWhitespace sparseText = 2"
  by code_simp

section \<open>Properties of the batch scheduler\<close>

lemma countResults_total:
  "countResults rs (a, b, c) = (a', b', c') \<Longrightarrow> a' + b' + c' = a + b + c + length rs"
  by (induction rs arbitrary: a b c) (auto split: if_splits)

lemma countResults_filter:
  "countResults rs (a, b, c) =
     (a + length (filter (\<lambda>r. Error r = [] \<and> ExtractedText r \<noteq> []) rs),
      b + length (filter (\<lambda>r. Error r \<noteq> []) rs),
      c + length (filter (\<lambda>r. Error r = [] \<and> ExtractedText r = []) rs))"
  by (induction rs arbitrary: a b c) auto

lemma sum_sends_update:
  assumes "i < length xs"
  shows "sum_list (map sends (xs[i := v])) + sends (xs ! i) = sum_list (map sends xs) + sends v"
proof -
  have "sum_list ((map sends xs)[i := sends v]) = sum_list (map sends xs) + sends v - (map sends xs) ! i"
    using assms by (simp add: sum_list_update)
  moreover have "(map sends xs) ! i \<le> sum_list (map sends xs)"
    using assms by (simp add: member_le_sum_list)
  ultimately show ?thesis using assms by (simp add: map_update)
qed

lemma taskStep_progressInv:
  assumes "ProgressChan p = Some c" "progressInv c s"
  shows "progressInv c (taskStep p work i s)"
proof (cases "i < length (pcs s)")
  case False
  then show ?thesis using assms(2) by (simp add: taskStep_def)
next
  case True
  note u = sum_sends_update[OF True]
  show ?thesis
  proof (cases "pcs s ! i")
    case WaitSem
    then show ?thesis using assms True u[of SendProcessing]
      by (auto simp: taskStep_def progressInv_def)
  next
    case SendProcessing
    then show ?thesis using assms True u[of Process]
      by (auto simp: taskStep_def progressInv_def sendProgress_def)
  next
    case Process
    then show ?thesis using assms True u[of SendCompletion]
      by (auto simp: taskStep_def progressInv_def)
  next
    case SendCompletion
    then show ?thesis using assms True u[of Finished]
      by (auto simp: taskStep_def progressInv_def sendProgress_def)
  next
    case Finished
    then show ?thesis using assms True by (simp add: taskStep_def)
  qed
qed

lemma runSchedule_progressInv:
  assumes "ProgressChan p = Some c" "noReader schedule" "progressInv c s"
  shows "progressInv c (runSchedule p work schedule s)"
  using assms(2,3)
proof (induction schedule arbitrary: s)
  case Nil
  then show ?case by simp
next
  case (Cons a rest)
  from Cons.prems(1) obtain i where a: "a = Run i" and r: "noReader rest"
    by (cases a) (auto simp: noReader_def)
  have "progressInv c (taskStep p work i s)"
    by (rule taskStep_progressInv[OF assms(1) Cons.prems(2)])
  then show ?case using Cons.IH[OF r] a by simp
qed

lemma taskStep_length: "length (pcs (taskStep p work i s)) = length (pcs s)"
  by (auto simp: taskStep_def sendProgress_def split: pc.splits option.splits)

lemma runSchedule_length: "length (pcs (runSchedule p work schedule s)) = length (pcs s)"
proof (induction schedule arbitrary: s)
  case Nil
  then show ?case by simp
next
  case (Cons a rest)
  show ?case using Cons.IH[of "exec p work a s"] by (cases a) (simp_all add: taskStep_length)
qed

lemma all_Finished_sends: "list_all (\<lambda>x. x = Finished) xs \<Longrightarrow> sum_list (map sends xs) = 2 * length xs"
  by (induction xs) auto

lemma allFinished_sends: "allFinished s \<Longrightarrow> sum_list (map sends (pcs s)) = 2 * length (pcs s)"
  by (simp add: allFinished_def all_Finished_sends)

text \<open>
  Claim C1 at inputs where the code departs from it. Every goroutine sends two updates to
  \<^verbatim>\<open>ProgressChan\<close>; when nobody reads the channel and it has no room for two updates per
  input, no run of the goroutines lets \<^verbatim>\<open>ProcessFilesWithSources\<close> return.
\<close>

theorem progress_channel_blocks:
  assumes "ProgressChan p = Some c" "buffered c \<le> capacity c"
    and "capacity c < buffered c + 2 * length inputs"
    and "noReader schedule"
  shows "ProcessFilesWithSources p worker inputs fileSources schedule \<noteq> Returned br"
proof
  assume ret: "ProcessFilesWithSources p worker inputs fileSources schedule = Returned br"
  define work where "work = (\<lambda>i. worker (inputs ! i) (fileSourceOf p fileSources (inputs ! i)))"
  define s where "s = runSchedule p work schedule (initialSched p (length inputs))"
  have fin: "allFinished s"
    using ret unfolding ProcessFilesWithSources_def Let_def work_def[symmetric] s_def[symmetric]
    by (auto split: if_splits)
  have "progressInv c (initialSched p (length inputs))"
    using assms(1,2) by (simp add: progressInv_def initialSched_def map_replicate_const sum_list_replicate)
  then have inv: "progressInv c s"
    unfolding s_def by (rule runSchedule_progressInv[OF assms(1,4)])
  have len: "length (pcs s) = length inputs"
    unfolding s_def by (simp add: runSchedule_length initialSched_def)
  have "progress s = buffered c + 2 * length inputs"
    using inv allFinished_sends[OF fin] len by (simp add: progressInv_def)
  moreover have "progress s \<le> capacity c" using inv by (simp add: progressInv_def)
  ultimately show False using assms(3) by simp
qed

text \<open>The part of the claim that holds: a call that returns has one result for each
  input, and the three counters split the results as the claim says.\<close>

lemma sentIdx_same:
  assumes "i < length xs" "sent v = sent (xs ! i)"
  shows "sentIdx (xs[i := v]) = sentIdx xs"
proof -
  have h: "sent (xs[i := v] ! j) = sent (xs ! j)" if "j \<in> set [0..<length xs]" for j
    using that assms by (cases "j = i") simp_all
  have "filter (\<lambda>j. sent (xs[i := v] ! j)) [0..<length xs] = filter (\<lambda>j. sent (xs ! j)) [0..<length xs]"
    by (rule filter_cong[OF refl]) (rule h)
  then show ?thesis unfolding sentIdx_def by simp
qed

lemma filter_add_index:
  "distinct ys \<Longrightarrow> i \<in> set ys \<Longrightarrow> \<not> P i \<Longrightarrow>
   mset (filter (\<lambda>j. j = i \<or> P j) ys) = add_mset i (mset (filter P ys))"
proof (induction ys)
  case Nil
  then show ?case by simp
next
  case (Cons y ys)
  show ?case
  proof (cases "y = i")
    case True
    then have "i \<notin> set ys" using Cons.prems(1) by simp
    then have "filter (\<lambda>j. j = i \<or> P j) ys = filter P ys" by (auto intro: filter_cong)
    then show ?thesis using True Cons.prems(3) by simp
  next
    case False
    then have "i \<in> set ys" using Cons.prems(2) by simp
    then show ?thesis using Cons.IH Cons.prems(1,3) False by simp
  qed
qed

lemma sentIdx_add:
  assumes "i < length xs" "\<not> sent (xs ! i)" "sent v"
  shows "mset (sentIdx (xs[i := v])) = add_mset i (mset (sentIdx xs))"
proof -
  have h: "sent (xs[i := v] ! j) = (j = i \<or> sent (xs ! j))" if "j \<in> set [0..<length xs]" for j
    using that assms by (cases "j = i") simp_all
  have "filter (\<lambda>j. sent (xs[i := v] ! j)) [0..<length xs] = filter (\<lambda>j. j = i \<or> sent (xs ! j)) [0..<length xs]"
    by (rule filter_cong[OF refl]) (rule h)
  then have "sentIdx (xs[i := v]) = filter (\<lambda>j. j = i \<or> sent (xs ! j)) [0..<length xs]"
    unfolding sentIdx_def by simp
  moreover have "mset (filter (\<lambda>j. j = i \<or> sent (xs ! j)) [0..<length xs])
      = add_mset i (mset (filter (\<lambda>j. sent (xs ! j)) [0..<length xs]))"
    by (rule filter_add_index) (use assms in simp_all)
  ultimately show ?thesis by (simp add: sentIdx_def)
qed

lemma taskStep_resultInv:
  assumes "resultInv work s"
  shows "resultInv work (taskStep p work i s)"
proof (cases "i < length (pcs s)")
  case False
  then show ?thesis using assms by (simp add: taskStep_def)
next
  case True
  show ?thesis
  proof (cases "pcs s ! i")
    case WaitSem
    then show ?thesis using assms True sentIdx_same[OF True, of SendProcessing]
      by (auto simp: taskStep_def resultInv_def)
  next
    case SendProcessing
    then show ?thesis using assms True sentIdx_same[OF True, of Process]
      by (auto simp: taskStep_def resultInv_def sendProgress_def split: option.splits)
  next
    case Process
    then show ?thesis using assms True sentIdx_add[OF True, of SendCompletion]
      by (auto simp: taskStep_def resultInv_def)
  next
    case SendCompletion
    then show ?thesis using assms True sentIdx_same[OF True, of Finished]
      by (auto simp: taskStep_def resultInv_def sendProgress_def split: option.splits)
  next
    case Finished
    then show ?thesis using assms True by (simp add: taskStep_def)
  qed
qed

lemma runSchedule_resultInv:
  "resultInv work s \<Longrightarrow> resultInv work (runSchedule p work schedule s)"
proof (induction schedule arbitrary: s)
  case Nil
  then show ?case by simp
next
  case (Cons a rest)
  have "resultInv work (exec p work a s)"
  proof (cases a)
    case (Run i)
    then show ?thesis using taskStep_resultInv[OF Cons.prems] by simp
  next
    case Drain
    then show ?thesis using Cons.prems by (simp add: resultInv_def)
  qed
  then show ?case using Cons.IH by simp
qed

lemma sentIdx_all: "list_all (\<lambda>x. x = Finished) xs \<Longrightarrow> sentIdx xs = [0..<length xs]"
proof -
  assume a: "list_all (\<lambda>x. x = Finished) xs"
  have "sent (xs ! j)" if "j \<in> set [0..<length xs]" for j
    using a that by (simp add: list_all_length)
  then have "filter (\<lambda>j. sent (xs ! j)) [0..<length xs] = [0..<length xs]"
    by (simp add: filter_id_conv)
  then show ?thesis unfolding sentIdx_def by simp
qed

lemma batch_returns_one_per_input:
  assumes "ProcessFilesWithSources p worker inputs fileSources schedule = Returned br"
  shows "TotalFiles br = length inputs \<and>
     mset (Results br) = mset (map (\<lambda>u. worker u (fileSourceOf p fileSources u)) inputs) \<and>
     length (Results br) = length inputs \<and>
     ProcessedFiles br + FailedFiles br + SkippedFiles br = length inputs \<and>
     FailedFiles br = length (filter (\<lambda>r. Error r \<noteq> []) (Results br)) \<and>
     SkippedFiles br = length (filter (\<lambda>r. Error r = [] \<and> ExtractedText r = []) (Results br)) \<and>
     ProcessedFiles br = length (filter (\<lambda>r. Error r = [] \<and> ExtractedText r \<noteq> []) (Results br))"
proof -
  define work where "work = (\<lambda>i. worker (inputs ! i) (fileSourceOf p fileSources (inputs ! i)))"
  define s where "s = runSchedule p work schedule (initialSched p (length inputs))"
  have fin: "allFinished s"
    using assms unfolding ProcessFilesWithSources_def Let_def work_def[symmetric] s_def[symmetric]
    by (auto split: if_splits)
  have br: "br = \<lparr>TotalFiles = length inputs,
       ProcessedFiles = length (filter (\<lambda>r. Error r = [] \<and> ExtractedText r \<noteq> []) (resultsChan s)),
       FailedFiles = length (filter (\<lambda>r. Error r \<noteq> []) (resultsChan s)),
       SkippedFiles = length (filter (\<lambda>r. Error r = [] \<and> ExtractedText r = []) (resultsChan s)),
       Results = resultsChan s\<rparr>"
    using assms fin unfolding ProcessFilesWithSources_def Let_def work_def[symmetric] s_def[symmetric]
    by (auto simp: countResults_filter split: if_splits)
  have "resultInv work (initialSched p (length inputs))"
    by (simp add: resultInv_def initialSched_def sentIdx_def)
  then have "resultInv work s" unfolding s_def by (rule runSchedule_resultInv)
  moreover have len: "length (pcs s) = length inputs"
    unfolding s_def by (simp add: runSchedule_length initialSched_def)
  moreover have "sentIdx (pcs s) = [0..<length (pcs s)]"
    using fin by (simp add: allFinished_def sentIdx_all)
  ultimately have m: "mset (resultsChan s) = mset (map work [0..<length inputs])"
    by (simp add: resultInv_def)
  have w: "map work [0..<length inputs] = map (\<lambda>u. worker u (fileSourceOf p fileSources u)) inputs"
    unfolding work_def by (rule nth_equalityI) simp_all
  have l: "length (resultsChan s) = length inputs"
    using m by (metis length_map length_upt mset_eq_length minus_nat.diff_0)
  have tot: "length (filter (\<lambda>r. Error r = [] \<and> ExtractedText r \<noteq> []) (resultsChan s))
       + length (filter (\<lambda>r. Error r \<noteq> []) (resultsChan s))
       + length (filter (\<lambda>r. Error r = [] \<and> ExtractedText r = []) (resultsChan s))
       = length (resultsChan s)"
    using countResults_total[of "resultsChan s" 0 0 0] by (simp add: countResults_filter)
  show ?thesis using m w l tot by (simp add: br)
qed

theorem progress_channel_blocks_witness:
  "ProgressChan cliProcessor = Some \<lparr>capacity = 100, buffered = 0\<rparr> \<and>
   length (inputsN 51) = 51 \<and> noReader (oneByOne 51) \<and>
   ProcessFilesWithSources cliProcessor okWorker (inputsN 51) None (oneByOne 51) \<noteq> Returned (expectedBatch 51)"
proof -
  have a: "ProgressChan cliProcessor = Some \<lparr>capacity = 100, buffered = 0\<rparr>"
    by (simp add: cliProcessor_def NewProcessor_def)
  have b: "buffered \<lparr>capacity = 100, buffered = 0\<rparr> \<le> capacity \<lparr>capacity = 100, buffered = 0\<rparr>"
    by simp
  have l: "length (inputsN 51) = 51" by (simp add: inputsN_def)
  have c: "capacity \<lparr>capacity = 100, buffered = 0\<rparr>
      < buffered \<lparr>capacity = 100, buffered = 0\<rparr> + 2 * length (inputsN 51)"
    by (simp add: l)
  have d: "noReader (oneByOne 51)" by code_simp
  show ?thesis
    using a l d progress_channel_blocks[OF a b c d, of okWorker None "expectedBatch 51"] by simp
qed

text \<open>Fifty inputs go through without a reader, fifty-one do not, and fifty-one go through
  when a reader takes the updates out.\<close>

lemma fifty_inputs_return: "isReturnedWith 50 (ProcessFilesWithSources cliProcessor okWorker (inputsN 50) None (oneByOne 50))"
  by code_simp

lemma fiftyone_inputs_block: "ProcessFilesWithSources cliProcessor okWorker (inputsN 51) None (oneByOne 51) = Blocked"
  by code_simp

lemma fiftyone_inputs_return_with_reader: "isReturnedWith 51 (ProcessFilesWithSources cliProcessor okWorker (inputsN 51) None (oneByOneRead 51))"
  by code_simp

end
